theory Spec2Isabelle
  imports Complex_Main
begin

section \<open>Pet door monitor: a model of \<open>app.py\<close> and \<open>mock_camera.py\<close>\<close>

text \<open>
  The program is a Python script whose functions read and write module globals
  (\<open>CONFIG\<close>, \<open>last_detection_time\<close>, \<open>detection_active\<close>, \<open>background_frame\<close>)
  and a directory tree on disk. The model passes these explicitly. Python exceptions are
  values of the type \<open>error\<close>; a function that can raise returns \<open>error + 'a\<close>, with
  \<open>Inl\<close> for the exception. Python floats that are only compared, subtracted or stored
  (confidences, clock readings, modification times) are rationals; the float arithmetic
  of the motion percentage is a parameter.
\<close>

subsection \<open>Exceptions\<close>

datatype error =
    RuntimeError
  | ValueError
  | TypeError
  | KeyError
  | ZeroDivisionError
  | OSError
  | CvError

subsection \<open>Detections and the category of an evidence entry\<close>

text \<open>
  \<open>detect_pets\<close> builds dictionaries \<open>{'type', 'confidence', 'bbox'}\<close>; the field
  \<open>ptype\<close> is the key \<open>'type'\<close>.
\<close>

record pet =
  ptype :: string
  confidence :: rat
  bbox :: "rat list"

text \<open>
  The category chain at the head of \<open>save_detection\<close>:
  \<^verbatim>\<open>
    if not pets:                                  category = 'unknown'
    elif any(p['type'] == 'cat' for p in pets):   category = 'cats'
    elif any(p['type'] == 'dog' for p in pets):   category = 'dogs'
    else:                                         category = 'unknown'
  \<close>
\<close>

definition category :: "pet list \<Rightarrow> string" where
  "category pets =
     (if pets = [] then ''unknown''
      else if list_ex (\<lambda>p. ptype p = ''cat'') pets then ''cats''
      else if list_ex (\<lambda>p. ptype p = ''dog'') pets then ''dogs''
      else ''unknown'')"

subsection \<open>Configuration\<close>

text \<open>
  The dictionary \<open>CONFIG\<close>. \<open>storage_path\<close> is \<open>Path.home() / 'pet-door-data'\<close>;
  the home directory is a parameter. \<open>fps\<close> and \<open>high_water_mark_gb\<close> are Python
  integers (the setter stores \<open>int(...)\<close>), \<open>detection_confidence\<close> is a float.
\<close>

record config =
  fps :: int
  resolution :: "nat \<times> nat"
  storage_path :: string
  high_water_mark_gb :: int
  detection_confidence :: rat
  motion_threshold :: int
  cooldown_seconds :: int

text \<open>
  \<open>os.path.join\<close> for two components (posixpath): an absolute second component
  replaces the first, otherwise a separator is inserted unless the first is empty or
  already ends in one. On a normalised \<open>Path\<close> and a plain name, pathlib's \<open>/\<close> gives
  the same string.
\<close>

definition os_path_join :: "string \<Rightarrow> string \<Rightarrow> string" where
  "os_path_join a b =
     (if b \<noteq> [] \<and> hd b = CHR ''/'' then b
      else if a = [] \<or> last a = CHR ''/'' then a @ b
      else a @ ''/'' @ b)"

definition CONFIG :: "string \<Rightarrow> config" where
  "CONFIG home =
     \<lparr>fps = 2, resolution = (1280, 720),
      storage_path = os_path_join home ''pet-door-data'',
      high_water_mark_gb = 10, detection_confidence = 1 / 2,
      motion_threshold = 30, cooldown_seconds = 5\<rparr>"

subsection \<open>The storage tree\<close>

text \<open>
  The disk is the list of its regular files in the order in which \<open>os.walk\<close> reports
  them, each with the directory \<open>os.walk\<close> reports it under (\<open>froot\<close>), its name, what
  \<open>os.path.getsize\<close> and \<open>os.path.getmtime\<close> return for it, and its contents. The
  contents of an image file is the frame that was encoded into it, the contents of a
  sidecar is the dictionary that \<open>json.dump\<close> wrote.
\<close>

record metadata =
  timestamp :: string
  mcategory :: string
  detections :: "pet list"
  filename :: string

datatype 'f data = Image 'f | Metadata metadata | Other

record 'f diskfile =
  froot :: string
  fname :: string
  fsize :: nat
  fmtime :: rat
  fdata :: "'f data"

definition fpath :: "'f diskfile \<Rightarrow> string" where
  "fpath f = os_path_join (froot f) (fname f)"

definition startswith :: "string \<Rightarrow> string \<Rightarrow> bool" where
  "startswith s p = (take (length p) s = p)"

definition endswith :: "string \<Rightarrow> string \<Rightarrow> bool" where
  "endswith s p = (length p \<le> length s \<and> drop (length s - length p) s = p)"

text \<open>
  \<open>os.walk(d)\<close>: the files of the directory \<open>d\<close> and of every directory below it.
  A directory that does not exist yields nothing.
\<close>

definition os_walk :: "string \<Rightarrow> 'f diskfile list \<Rightarrow> 'f diskfile list" where
  "os_walk d fs =
     filter (\<lambda>f. froot f = d \<or> startswith (froot f) (os_path_join d [])) fs"

text \<open>
  \<open>get_storage_usage_gb\<close>: the byte total divided by \<open>1024 ** 3\<close>. The quotient is an
  exact rational here; the double of the source is this value exactly for totals below
  \<open>2 ^ 53\<close> bytes.
\<close>

definition get_storage_usage_gb :: "config \<Rightarrow> 'f diskfile list \<Rightarrow> rat" where
  "get_storage_usage_gb cfg fs =
     of_nat (sum_list (map fsize (os_walk (storage_path cfg) fs))) / 1024 ^ 3"

text \<open>
  \<open>os.remove(path)\<close>: raises when no such file exists, and whenever the operating
  system refuses (the predicate \<open>refuses\<close>: permissions and the like, decided outside
  the program).
\<close>

definition os_remove ::
  "(string \<Rightarrow> bool) \<Rightarrow> string \<Rightarrow> 'f diskfile list \<Rightarrow> error + 'f diskfile list" where
  "os_remove refuses p fs =
     (if refuses p \<or> \<not> list_ex (\<lambda>f. fpath f = p) fs then Inl OSError
      else Inr (filter (\<lambda>f. fpath f \<noteq> p) fs))"

subsection \<open>Capacity cleanup\<close>

text \<open>
  \<open>int(len(all_files) * 0.2)\<close>. The literal \<open>0.2\<close> is the double
  \<open>3602879701896397 / 2 ^ 54\<close>; the function is the integer part of the exact product.
  (For fewer than \<open>2 ^ 50\<close> files the rounding of the product to a double does not
  change its integer part.)
\<close>

definition files_to_delete :: "nat \<Rightarrow> nat" where
  "files_to_delete n = (n * 3602879701896397) div 2 ^ 54"

text \<open>
  The list \<open>all_files\<close> of \<open>cleanup_old_files\<close>: the pairs \<open>(filepath, mtime)\<close> of the
  files below the storage path whose name ends in \<open>.jpg\<close>.
\<close>

definition all_files :: "config \<Rightarrow> 'f diskfile list \<Rightarrow> (string \<times> rat) list" where
  "all_files cfg fs =
     map (\<lambda>f. (fpath f, fmtime f))
       (filter (\<lambda>f. endswith (fname f) ''.jpg'') (os_walk (storage_path cfg) fs))"

text \<open>The files behind \<open>all_files\<close>: the images that a cleanup pass enumerates.\<close>

definition images :: "config \<Rightarrow> 'f diskfile list \<Rightarrow> 'f diskfile list" where
  "images cfg fs = filter (\<lambda>f. endswith (fname f) ''.jpg'') (os_walk (storage_path cfg) fs)"

text \<open>
  The deletion loop: \<open>try: os.remove(filepath) except Exception: print(...)\<close> for each
  selected path; an exception leaves the disk as it was and the loop goes on.
\<close>

fun remove_each :: "(string \<Rightarrow> bool) \<Rightarrow> string list \<Rightarrow> 'f diskfile list \<Rightarrow> 'f diskfile list" where
  "remove_each refuses [] fs = fs"
| "remove_each refuses (p # ps) fs =
     remove_each refuses ps
       (case os_remove refuses p fs of Inl e \<Rightarrow> fs | Inr fs' \<Rightarrow> fs')"

text \<open>
  \<open>to_delete\<close> is the slice \<open>all_files[:files_to_delete]\<close> after the (stable) sort on
  the modification time.
\<close>

definition to_delete :: "config \<Rightarrow> 'f diskfile list \<Rightarrow> string list" where
  "to_delete cfg fs =
     map fst (take (files_to_delete (length (all_files cfg fs)))
                (sort_key snd (all_files cfg fs)))"

definition cleanup_old_files ::
  "config \<Rightarrow> (string \<Rightarrow> bool) \<Rightarrow> 'f diskfile list \<Rightarrow> 'f diskfile list" where
  "cleanup_old_files cfg refuses fs =
     (if get_storage_usage_gb cfg fs \<le> of_int (high_water_mark_gb cfg) then fs
      else remove_each refuses (to_delete cfg fs) fs)"

subsection \<open>Writing evidence\<close>

text \<open>
  \<open>datetime.now()\<close> as its fields. \<open>zfill w n\<close> is the decimal numeral of \<open>n\<close> in
  exactly \<open>w\<close> digits, which is what \<open>strftime\<close> and \<open>isoformat\<close> print for a
  field below \<open>10 ^ w\<close> (years run from 1000 to 9999 here).
\<close>

record datetime =
  year :: nat
  month :: nat
  day :: nat
  hour :: nat
  minute :: nat
  second :: nat
  microsecond :: nat

definition digit :: "nat \<Rightarrow> char" where
  "digit d = ''0123456789'' ! (d mod 10)"

primrec zfill :: "nat \<Rightarrow> nat \<Rightarrow> string" where
  "zfill 0 n = []"
| "zfill (Suc w) n = zfill w (n div 10) @ [digit n]"

text \<open>\<open>timestamp.strftime('%Y%m%d_%H%M%S.jpg')\<close>\<close>

definition strftime_jpg :: "datetime \<Rightarrow> string" where
  "strftime_jpg t =
     zfill 4 (year t) @ zfill 2 (month t) @ zfill 2 (day t) @ ''_'' @
     zfill 2 (hour t) @ zfill 2 (minute t) @ zfill 2 (second t) @ ''.jpg''"

text \<open>\<open>timestamp.isoformat()\<close>: the fraction is printed only when it is not zero.\<close>

definition isoformat :: "datetime \<Rightarrow> string" where
  "isoformat t =
     zfill 4 (year t) @ ''-'' @ zfill 2 (month t) @ ''-'' @ zfill 2 (day t) @ ''T'' @
     zfill 2 (hour t) @ '':'' @ zfill 2 (minute t) @ '':'' @ zfill 2 (second t) @
     (if microsecond t = 0 then [] else ''.'' @ zfill 6 (microsecond t))"

text \<open>
  \<open>Path.with_suffix\<close> on the file name: the part from the last dot on is replaced. (The
  names it is applied to here are the ones \<open>strftime_jpg\<close> returns.)
\<close>

definition with_suffix :: "string \<Rightarrow> string \<Rightarrow> string" where
  "with_suffix name suffix =
     (if CHR ''.'' \<in> set name
      then rev (tl (dropWhile (\<lambda>c. c \<noteq> CHR ''.'') (rev name))) @ suffix
      else name @ suffix)"

text \<open>
  Creating or truncating a file: an existing file of that directory and name is
  replaced where it stands in the listing, a new one is listed last.
\<close>

definition write_file :: "'f diskfile \<Rightarrow> 'f diskfile list \<Rightarrow> 'f diskfile list" where
  "write_file new fs =
     (if list_ex (\<lambda>f. froot f = froot new \<and> fname f = fname new) fs
      then map (\<lambda>f. if froot f = froot new \<and> fname f = fname new then new else f) fs
      else fs @ [new])"

text \<open>
  What the world outside the program answers during one call of \<open>save_detection\<close>:
  the clock, whether \<open>cv2.imwrite\<close> raises, returns \<open>False\<close> (nothing written) or
  \<open>True\<close>, whether opening the sidecar for writing raises, and the sizes and
  modification times the two files get.
\<close>

record save_io =
  sv_now :: datetime
  sv_imwrite :: "error + bool"
  sv_open :: "error option"
  sv_jpg_size :: nat
  sv_jpg_mtime :: rat
  sv_json_size :: nat
  sv_json_mtime :: rat

text \<open>
  \<open>save_detection(frame, pets)\<close> returns \<open>filepath\<close>; the model returns it together
  with the disk afterwards. When the function raises, what was written before stays.
\<close>

definition save_detection ::
  "config \<Rightarrow> save_io \<Rightarrow> 'f diskfile list \<Rightarrow> 'f \<Rightarrow> pet list \<Rightarrow> (error + string) \<times> 'f diskfile list" where
  "save_detection cfg io fs frame pets =
     (let ts = sv_now io;
          cat = category pets;
          name = strftime_jpg ts;
          dir = os_path_join (storage_path cfg) cat
      in case sv_imwrite io of
           Inl e \<Rightarrow> (Inl e, fs)
         | Inr written \<Rightarrow>
             let fs1 = (if written
                        then write_file \<lparr>froot = dir, fname = name, fsize = sv_jpg_size io,
                                         fmtime = sv_jpg_mtime io, fdata = Image frame\<rparr> fs
                        else fs);
                 meta_name = with_suffix name ''.json'';
                 meta = \<lparr>timestamp = isoformat ts, mcategory = cat,
                         detections = pets, filename = name\<rparr>
             in (case sv_open io of
                   Some e \<Rightarrow> (Inl e, fs1)
                 | None \<Rightarrow>
                     (Inr (os_path_join dir name),
                      write_file \<lparr>froot = dir, fname = meta_name, fsize = sv_json_size io,
                                  fmtime = sv_json_mtime io, fdata = Metadata meta\<rparr> fs1)))"

text \<open>
  The deletion endpoint \<open>delete_detection(category, image_id)\<close> removes the image and
  the sidecar, each if it exists; an exception of \<open>os.remove\<close> gives the 500 answer.
\<close>

definition delete_detection ::
  "config \<Rightarrow> (string \<Rightarrow> bool) \<Rightarrow> string \<Rightarrow> string \<Rightarrow> 'f diskfile list \<Rightarrow> (error + unit) \<times> 'f diskfile list" where
  "delete_detection cfg refuses cat image_id fs =
     (let img_path = os_path_join (os_path_join (storage_path cfg) cat) (image_id @ ''.jpg'');
          meta_path = os_path_join (os_path_join (storage_path cfg) cat) (image_id @ ''.json'')
      in case (if list_ex (\<lambda>f. fpath f = img_path) fs
               then os_remove refuses img_path fs else Inr fs) of
           Inl e \<Rightarrow> (Inl e, fs)
         | Inr fs1 \<Rightarrow>
             (case (if list_ex (\<lambda>f. fpath f = meta_path) fs1
                    then os_remove refuses meta_path fs1 else Inr fs1) of
                Inl e \<Rightarrow> (Inl e, fs1)
              | Inr fs2 \<Rightarrow> (Inr (), fs2)))"

subsection \<open>The classifier boundary\<close>

text \<open>
  What the model object returns: a list of results, each with its boxes and its
  \<open>names\<close> dictionary from class ids to labels. \<open>cls\<close> is \<open>int(box.cls[0])\<close>, \<open>conf\<close>
  is \<open>float(box.conf[0])\<close>, \<open>xyxy\<close> is \<open>box.xyxy[0].tolist()\<close>.
\<close>

record box =
  cls :: int
  conf :: rat
  xyxy :: "rat list"

record result =
  boxes :: "box list"
  names :: "int \<rightharpoonup> string"

text \<open>
  The inner loop of \<open>detect_pets\<close> over the boxes of one result, \<open>detected_pets\<close> being
  the accumulator; \<open>result.names[class_id]\<close> raises \<open>KeyError\<close> on an unknown id.
\<close>

fun scan_boxes :: "(int \<rightharpoonup> string) \<Rightarrow> box list \<Rightarrow> pet list \<Rightarrow> error + pet list" where
  "scan_boxes nm [] detected_pets = Inr detected_pets"
| "scan_boxes nm (b # bs) detected_pets =
     (case nm (cls b) of
        None \<Rightarrow> Inl KeyError
      | Some class_name \<Rightarrow>
          scan_boxes nm bs
            (if class_name \<in> set [''cat'', ''dog'']
             then detected_pets @ [\<lparr>ptype = class_name, confidence = conf b, bbox = xyxy b\<rparr>]
             else detected_pets))"

fun scan_results :: "result list \<Rightarrow> pet list \<Rightarrow> error + pet list" where
  "scan_results [] detected_pets = Inr detected_pets"
| "scan_results (r # rs) detected_pets =
     (case scan_boxes (names r) (boxes r) detected_pets of
        Inl e \<Rightarrow> Inl e
      | Inr detected_pets' \<Rightarrow> scan_results rs detected_pets')"

text \<open>
  \<open>detect_pets(frame)\<close>: the model is called with \<open>conf=CONFIG['detection_confidence']\<close>
  and may raise; the only test applied to a box afterwards is the one on its label.
\<close>

definition detect_pets ::
  "('f \<Rightarrow> rat \<Rightarrow> error + result list) \<Rightarrow> config \<Rightarrow> 'f \<Rightarrow> error + pet list" where
  "detect_pets model cfg frame =
     (case model frame (detection_confidence cfg) of
        Inl e \<Rightarrow> Inl e
      | Inr results \<Rightarrow> scan_results results [])"

text \<open>
  \<open>MockYOLO\<close> of \<open>mock_camera.py\<close>. Its random draws are an argument: one record per
  detection that \<open>MockBoxes.__iter__\<close> yields. \<open>mock_draws_ok\<close> says what
  \<open>np.random\<close> can draw: zero to two boxes, class 15 or 16, a confidence from
  \<open>uniform(0.5, 0.95)\<close>, the corner from \<open>randint(0, 1000)\<close> and \<open>randint(0, 600)\<close>,
  the extents from \<open>randint(100, 300)\<close>.
\<close>

record mock_draw =
  m_cls :: int
  m_conf :: rat
  m_x1 :: int
  m_y1 :: int
  m_w :: int
  m_h :: int

definition mock_draws_ok :: "mock_draw list \<Rightarrow> bool" where
  "mock_draws_ok ds =
     (length ds \<le> 2 \<and>
      list_all (\<lambda>d. (m_cls d = 15 \<or> m_cls d = 16) \<and> 1 / 2 \<le> m_conf d \<and> m_conf d < 19 / 20 \<and>
                    0 \<le> m_x1 d \<and> m_x1 d < 1000 \<and> 0 \<le> m_y1 d \<and> m_y1 d < 600 \<and>
                    100 \<le> m_w d \<and> m_w d < 300 \<and> 100 \<le> m_h d \<and> m_h d < 300) ds)"

definition MockBox :: "mock_draw \<Rightarrow> box" where
  "MockBox d =
     \<lparr>cls = m_cls d, conf = m_conf d,
      xyxy = [of_int (m_x1 d), of_int (m_y1 d),
              of_int (m_x1 d + m_w d), of_int (m_y1 d + m_h d)]\<rparr>"

definition MockYOLO :: "mock_draw list \<Rightarrow> 'f \<Rightarrow> rat \<Rightarrow> error + result list" where
  "MockYOLO ds frame c =
     Inr [\<lparr>boxes = map MockBox ds, names = [15 \<mapsto> ''cat'', 16 \<mapsto> ''dog'']\<rparr>]"

subsection \<open>The configuration endpoint\<close>

text \<open>
  \<open>handle_config\<close>. The request body \<open>data\<close> is a dictionary of JSON values of some
  type \<open>'j\<close>; Python's \<open>int(...)\<close> and \<open>float(...)\<close> on such a value are the parameters
  \<open>py_int\<close> and \<open>py_float\<close>, and they may raise. The three keys are handled in the order
  of the source, each assignment to \<open>CONFIG\<close> staying in place when a later conversion
  raises.

  Both branches end in \<open>jsonify\<close> of a body that contains \<open>CONFIG\<close>. The value of
  \<open>CONFIG['storage_path']\<close> is a \<open>pathlib.Path\<close>, which no request changes and which
  Flask's JSON encoder does not serialise: the call raises \<open>TypeError\<close>, after the
  assignments have been made.
\<close>

datatype request_method = GET | POST

datatype response = ConfigJson config | Success config

definition jsonify_CONFIG :: "response \<Rightarrow> error + response" where
  "jsonify_CONFIG body = Inl TypeError"

definition handle_config ::
  "('j \<Rightarrow> error + int) \<Rightarrow> ('j \<Rightarrow> error + rat) \<Rightarrow> request_method \<Rightarrow> (string \<rightharpoonup> 'j) \<Rightarrow> config
     \<Rightarrow> (error + response) \<times> config" where
  "handle_config py_int py_float m data cfg =
     (if m = GET then (jsonify_CONFIG (ConfigJson cfg), cfg)
      else
        (case (case data ''fps'' of
                 None \<Rightarrow> Inr cfg
               | Some v \<Rightarrow> (case py_int v of Inl e \<Rightarrow> Inl e | Inr i \<Rightarrow> Inr (cfg\<lparr>fps := i\<rparr>))) of
           Inl e \<Rightarrow> (Inl e, cfg)
         | Inr c1 \<Rightarrow>
             (case (case data ''high_water_mark_gb'' of
                      None \<Rightarrow> Inr c1
                    | Some v \<Rightarrow> (case py_int v of Inl e \<Rightarrow> Inl e
                                 | Inr i \<Rightarrow> Inr (c1\<lparr>high_water_mark_gb := i\<rparr>))) of
                Inl e \<Rightarrow> (Inl e, c1)
              | Inr c2 \<Rightarrow>
                  (case (case data ''detection_confidence'' of
                           None \<Rightarrow> Inr c2
                         | Some v \<Rightarrow> (case py_float v of Inl e \<Rightarrow> Inl e
                                      | Inr x \<Rightarrow> Inr (c2\<lparr>detection_confidence := x\<rparr>))) of
                     Inl e \<Rightarrow> (Inl e, c2)
                   | Inr c3 \<Rightarrow> (jsonify_CONFIG (Success c3), c3)))))"

subsection \<open>The motion gate\<close>

text \<open>
  The library operations that \<open>detect_motion\<close> and the loop call are parameters. The
  OpenCV functions work over a type \<open>'f\<close> of colour frames and a type \<open>'g\<close> of grey
  images; each may raise. \<open>shape\<close> is \<open>(frame.shape[0], frame.shape[1])\<close>.
  \<open>truediv\<close> and \<open>float_mul\<close> are Python's division of two integers and its
  multiplication of two floats: each returns a double, the one nearest to the exact
  result, given here as the rational number it is. The motion percentage is computed
  with them, so that the verdict is the one of the double arithmetic, not of exact
  arithmetic.
\<close>

record ('f, 'g) cv2 =
  cvtColor_RGB2BGR :: "'f \<Rightarrow> error + 'f"
  cvtColor_BGR2GRAY :: "'f \<Rightarrow> error + 'g"
  GaussianBlur :: "'g \<Rightarrow> nat \<times> nat \<Rightarrow> nat \<Rightarrow> error + 'g"
  absdiff :: "'g \<Rightarrow> 'g \<Rightarrow> error + 'g"
  threshold :: "'g \<Rightarrow> nat \<Rightarrow> nat \<Rightarrow> error + 'g"
  addWeighted :: "'g \<Rightarrow> rat \<Rightarrow> 'g \<Rightarrow> rat \<Rightarrow> rat \<Rightarrow> error + 'g"
  countNonZero :: "'g \<Rightarrow> error + nat"
  shape :: "'f \<Rightarrow> nat \<times> nat"
  truediv :: "nat \<Rightarrow> nat \<Rightarrow> rat"
  float_mul :: "rat \<Rightarrow> rat \<Rightarrow> rat"

text \<open>
  \<open>detect_motion(frame)\<close> with the global \<open>background_frame\<close> passed in and returned.
  An exception after the assignment to \<open>background_frame\<close> leaves the new background
  in place. The last lines are
  \<^verbatim>\<open>
    motion_percent = (motion_pixels / frame_pixels) * 100
    return motion_percent > CONFIG['motion_threshold']
  \<close>
  where the division raises for a frame without pixels, and the comparison of the double
  with the integer threshold is exact.
\<close>

definition detect_motion ::
  "('f, 'g) cv2 \<Rightarrow> config \<Rightarrow> 'f \<Rightarrow> 'g option \<Rightarrow> (error + bool) \<times> 'g option" where
  "detect_motion cv cfg frame background_frame =
     (case cvtColor_BGR2GRAY cv frame of
        Inl e \<Rightarrow> (Inl e, background_frame)
      | Inr gray0 \<Rightarrow>
     (case GaussianBlur cv gray0 (21, 21) 0 of
        Inl e \<Rightarrow> (Inl e, background_frame)
      | Inr gray \<Rightarrow>
     (case background_frame of
        None \<Rightarrow> (Inr False, Some gray)
      | Some background \<Rightarrow>
     (case absdiff cv background gray of
        Inl e \<Rightarrow> (Inl e, background_frame)
      | Inr frame_delta \<Rightarrow>
     (case threshold cv frame_delta 25 255 of
        Inl e \<Rightarrow> (Inl e, background_frame)
      | Inr thresh \<Rightarrow>
     (case addWeighted cv background (9 / 10) gray (1 / 10) 0 of
        Inl e \<Rightarrow> (Inl e, background_frame)
      | Inr background' \<Rightarrow>
     (case countNonZero cv thresh of
        Inl e \<Rightarrow> (Inl e, Some background')
      | Inr motion_pixels \<Rightarrow>
          (let frame_pixels = fst (shape cv frame) * snd (shape cv frame)
           in if frame_pixels = 0 then (Inl ZeroDivisionError, Some background')
              else (Inr (of_int (motion_threshold cfg)
                           < float_mul cv (truediv cv motion_pixels frame_pixels) 100),
                    Some background')))))))))"

subsection \<open>The monitoring loop\<close>

text \<open>
  The globals the loop reads and writes, with the disk.
\<close>

record ('f, 'g) state =
  st_config :: config
  last_detection_time :: rat
  detection_active :: bool
  background_frame :: "'g option"
  disk :: "'f diskfile list"

text \<open>
  What the world outside answers during one iteration: \<open>camera.capture_array()\<close>,
  \<open>time.time()\<close>, the model's behaviour, the answers to \<open>save_detection\<close>, and the
  paths on which \<open>os.remove\<close> is refused.
\<close>

record 'f tick_io =
  t_capture :: "error + 'f"
  t_time :: rat
  t_model :: "'f \<Rightarrow> rat \<Rightarrow> error + result list"
  t_save :: save_io
  t_refuses :: "string \<Rightarrow> bool"

datatype outcome = Paused | NoMotion | Cooldown | Saved string | Failed error

text \<open>
  \<open>time.sleep(1 / CONFIG['fps'])\<close>: the division raises for \<open>fps = 0\<close>, and
  \<open>time.sleep\<close> raises \<open>ValueError\<close> for a negative length.
\<close>

definition sleep_fps :: "config \<Rightarrow> error option" where
  "sleep_fps cfg =
     (if fps cfg = 0 then Some ZeroDivisionError
      else if fps cfg < 0 then Some ValueError
      else None)"

definition then_sleep :: "outcome \<Rightarrow> ('f, 'g) state \<Rightarrow> (error + outcome) \<times> ('f, 'g) state" where
  "then_sleep oc s =
     (case sleep_fps (st_config s) of Some e \<Rightarrow> (Inl e, s) | None \<Rightarrow> (Inr oc, s))"

text \<open>
  The body of the \<open>try\<close> block of \<open>monitoring_loop\<close>. \<open>Inl e\<close> is an exception that
  leaves the block; the state returned with it holds the assignments made before it was
  raised. The test \<open>if pets or True\<close> always succeeds.
\<close>

definition try_body ::
  "('f, 'g) cv2 \<Rightarrow> 'f tick_io \<Rightarrow> ('f, 'g) state \<Rightarrow> (error + outcome) \<times> ('f, 'g) state" where
  "try_body cv io s =
     (case t_capture io of
        Inl e \<Rightarrow> (Inl e, s)
      | Inr frame \<Rightarrow>
     (case cvtColor_RGB2BGR cv frame of
        Inl e \<Rightarrow> (Inl e, s)
      | Inr frame_bgr \<Rightarrow>
     (let (motion, bg) = detect_motion cv (st_config s) frame_bgr (background_frame s);
          s1 = s\<lparr>background_frame := bg\<rparr>
      in (case motion of
            Inl e \<Rightarrow> (Inl e, s1)
          | Inr False \<Rightarrow> then_sleep NoMotion s1
          | Inr True \<Rightarrow>
              (let current_time = t_time io
               in if current_time - last_detection_time s1
                       < of_int (cooldown_seconds (st_config s1))
                  then then_sleep Cooldown s1
                  else
                    (case detect_pets (t_model io) (st_config s1) frame_bgr of
                       Inl e \<Rightarrow> (Inl e, s1)
                     | Inr pets \<Rightarrow>
                         (case save_detection (st_config s1) (t_save io) (disk s1) frame_bgr pets of
                            (Inl e, d) \<Rightarrow> (Inl e, s1\<lparr>disk := d\<rparr>)
                          | (Inr p, d) \<Rightarrow>
                              (let s2 = s1\<lparr>disk := d, last_detection_time := current_time\<rparr>;
                                   s3 = s2\<lparr>disk := cleanup_old_files (st_config s2)
                                                      (t_refuses io) (disk s2)\<rparr>
                               in then_sleep (Saved p) s3))))))))"

text \<open>
  One pass through the \<open>while True\<close> loop: the pause test, then the \<open>try\<close> block with
  \<open>except Exception\<close>, which prints, sleeps a second and lets the loop go on.
\<close>

definition loop_iteration ::
  "('f, 'g) cv2 \<Rightarrow> 'f tick_io \<Rightarrow> ('f, 'g) state \<Rightarrow> outcome \<times> ('f, 'g) state" where
  "loop_iteration cv io s =
     (if \<not> detection_active s then (Paused, s)
      else (case try_body cv io s of
              (Inl e, s') \<Rightarrow> (Failed e, s')
            | (Inr oc, s') \<Rightarrow> (oc, s')))"

text \<open>
  The loop over the iterations for which the world's answers are given, with the
  outcome of each.
\<close>

fun monitoring_loop ::
  "('f, 'g) cv2 \<Rightarrow> 'f tick_io list \<Rightarrow> ('f, 'g) state \<Rightarrow> outcome list \<times> ('f, 'g) state" where
  "monitoring_loop cv [] s = ([], s)"
| "monitoring_loop cv (io # ios) s =
     (let (oc, s') = loop_iteration cv io s;
          (ocs, s'') = monitoring_loop cv ios s'
      in (oc # ocs, s''))"

subsection \<open>Data for running the model\<close>

text \<open>
  An instance of the library parameters on which the definitions can be evaluated: a
  frame is a column of grey levels, the colour conversions and the blur return their
  argument, the other operations work level by level. The float operations are the
  exact ones; the quotient and the product that occur below (\<open>3 / 3 = 1\<close> and
  \<open>1 * 100 = 100\<close>) are doubles, so they agree with Python's there.
\<close>

definition column_cv :: "(nat list, nat list) cv2" where
  "column_cv =
     \<lparr>cvtColor_RGB2BGR = Inr,
      cvtColor_BGR2GRAY = Inr,
      GaussianBlur = (\<lambda>g k sigma. Inr g),
      absdiff = (\<lambda>a b. if length a = length b
                         then Inr (map2 (\<lambda>x y. if x \<le> y then y - x else x - y) a b)
                         else Inl CvError),
      threshold = (\<lambda>g t m. Inr (map (\<lambda>v. if t < v then m else 0) g)),
      addWeighted = (\<lambda>a alpha b beta gamma.
                       if length a = length b
                       then Inr (map2 (\<lambda>x y. nat \<lfloor>alpha * of_nat x + beta * of_nat y + gamma + 1 / 2\<rfloor>) a b)
                       else Inl CvError),
      countNonZero = (\<lambda>g. Inr (length (filter (\<lambda>v. v \<noteq> 0) g))),
      shape = (\<lambda>f. (length f, 1)),
      truediv = (\<lambda>a b. of_nat a / of_nat b),
      float_mul = (\<lambda>x y. x * y)\<rparr>"

text \<open>
  The globals as the module initialises them, on an empty storage tree, and the
  answers of the world for one iteration in which the camera delivers \<open>frame\<close> at
  clock reading \<open>t\<close>, the model answers \<open>answer\<close>, and every write and removal
  succeeds.
\<close>

definition start :: "(nat list, nat list) state" where
  "start =
     \<lparr>st_config = CONFIG ''/home/pi'', last_detection_time = 0, detection_active = True,
      background_frame = None, disk = []\<rparr>"

definition tick :: "rat \<Rightarrow> nat list \<Rightarrow> error + result list \<Rightarrow> datetime \<Rightarrow> nat list tick_io" where
  "tick t frame answer dt =
     \<lparr>t_capture = Inr frame, t_time = t, t_model = (\<lambda>f c. answer),
      t_save = \<lparr>sv_now = dt, sv_imwrite = Inr True, sv_open = None,
                sv_jpg_size = 200000, sv_jpg_mtime = t,
                sv_json_size = 300, sv_json_mtime = t\<rparr>,
      t_refuses = (\<lambda>p. False)\<rparr>"

definition at_second :: "nat \<Rightarrow> nat \<Rightarrow> datetime" where
  "at_second sec usec =
     \<lparr>year = 2024, month = 3, day = 9, hour = 7, minute = 5, second = sec,
      microsecond = usec\<rparr>"

text \<open>
  A storage tree for the capacity controller: ten evidence entries written by
  \<open>save_detection\<close> on an empty tree, five seconds or more apart, each image of
  1.3 GB, so that the tree holds more than the 10 GB of the default configuration.
  \<open>ten_entries\<close> lists the files directory by directory, as \<open>os.walk\<close> reports
  them: the listing is not in the order of the modification times.
\<close>

definition big_write :: "nat \<Rightarrow> save_io" where
  "big_write sec =
     \<lparr>sv_now = at_second sec 5, sv_imwrite = Inr True, sv_open = None,
      sv_jpg_size = 1300000000, sv_jpg_mtime = 1709967900 + of_nat sec,
      sv_json_size = 300, sv_json_mtime = 1709967900 + of_nat sec\<rparr>"

definition a_cat :: "pet list" where
  "a_cat = [\<lparr>ptype = ''cat'', confidence = 4 / 5, bbox = [10, 20, 110, 170]\<rparr>]"

definition a_dog :: "pet list" where
  "a_dog = [\<lparr>ptype = ''dog'', confidence = 7 / 10, bbox = [30, 40, 230, 240]\<rparr>]"

definition ten_writes :: "nat list diskfile list" where
  "ten_writes =
     fold (\<lambda>(sec, pets) fs. snd (save_detection (CONFIG ''/home/pi'') (big_write sec) fs [sec] pets))
       [(0, a_cat), (5, []), (10, a_dog), (15, a_cat), (20, []),
        (25, a_dog), (30, a_cat), (40, []), (50, a_dog), (55, a_cat)] []"

definition ten_entries :: "nat list diskfile list" where
  "ten_entries =
     filter (\<lambda>f. froot f = ''/home/pi/pet-door-data/cats'') ten_writes @
     filter (\<lambda>f. froot f = ''/home/pi/pet-door-data/dogs'') ten_writes @
     filter (\<lambda>f. froot f = ''/home/pi/pet-door-data/unknown'') ten_writes"

section \<open>Properties\<close>

subsection \<open>Auxiliary facts\<close>

lemma files_to_delete_fifth:
  assumes "n < 2 ^ 54"
  shows "files_to_delete n = n div 5"
proof -
  define q where "q = n div 5"
  define r where "r = n mod 5"
  have n: "n = 5 * q + r" and r: "r < 5" by (simp_all add: q_def r_def)
  have lt: "5 * q + r < 18014398509481984" using assms unfolding n by simp
  have lo: "18014398509481984 * q \<le> (5 * q + r) * 3602879701896397" by simp
  have hi: "(5 * q + r) * 3602879701896397 < 18014398509481984 * Suc q"
    using lt r by simp
  have d: "((5 * q + r) * 3602879701896397) div 18014398509481984 = q"
    using lo hi by (rule div_nat_eqI)
  have "files_to_delete n = (n * 3602879701896397) div 18014398509481984"
    by (simp add: files_to_delete_def)
  also have "\<dots> = ((5 * q + r) * 3602879701896397) div 18014398509481984"
    by (simp only: n [symmetric])
  also have "\<dots> = q" by (rule d)
  finally show ?thesis by (simp only: q_def)
qed

text \<open>
  The deletion loop keeps exactly the files that are not selected or whose removal is
  refused.
\<close>

lemma remove_each_filter:
  "remove_each refuses ps fs = filter (\<lambda>f. fpath f \<in> set ps \<longrightarrow> refuses (fpath f)) fs"
proof (induction ps arbitrary: fs)
  case Nil
  show ?case by simp
next
  case (Cons p ps)
  have step: "(case os_remove refuses p fs of Inl e \<Rightarrow> fs | Inr fs' \<Rightarrow> fs')
              = filter (\<lambda>f. fpath f = p \<longrightarrow> refuses (fpath f)) fs"
  proof (cases "refuses p")
    case True
    then have "filter (\<lambda>f. fpath f = p \<longrightarrow> refuses (fpath f)) fs = fs"
      by (auto intro: filter_True)
    with True show ?thesis by (simp add: os_remove_def)
  next
    case False
    then have eq: "(\<lambda>f. fpath f = p \<longrightarrow> refuses (fpath f)) = (\<lambda>f::'a diskfile. fpath f \<noteq> p)"
      by auto
    show ?thesis
    proof (cases "list_ex (\<lambda>f. fpath f = p) fs")
      case True
      with False show ?thesis by (simp add: os_remove_def eq)
    next
      case no: False
      then have "filter (\<lambda>f. fpath f \<noteq> p) fs = fs"
        by (auto simp: list_ex_iff intro: filter_True)
      with False no show ?thesis by (simp add: os_remove_def eq)
    qed
  qed
  show ?case
    unfolding remove_each.simps step Cons.IH filter_filter
    by (rule filter_cong) auto
qed

text \<open>The two loops of \<open>detect_pets\<close> append the cat and dog boxes, in order.\<close>

lemma scan_boxes_acc:
  "scan_boxes nm bs acc = Inr ps \<Longrightarrow>
   ps = acc @ map (\<lambda>b. \<lparr>ptype = the (nm (cls b)), confidence = conf b, bbox = xyxy b\<rparr>)
                 (filter (\<lambda>b. nm (cls b) = Some ''cat'' \<or> nm (cls b) = Some ''dog'') bs)"
proof (induction bs arbitrary: acc)
  case Nil
  then show ?case by simp
next
  case (Cons b bs)
  from Cons.prems obtain cn where cn: "nm (cls b) = Some cn"
    by (cases "nm (cls b)") auto
  define acc' where
    "acc' = (if cn = ''cat'' \<or> cn = ''dog''
             then acc @ [\<lparr>ptype = cn, confidence = conf b, bbox = xyxy b\<rparr>] else acc)"
  from Cons.prems cn have "scan_boxes nm bs acc' = Inr ps"
    by (simp add: acc'_def)
  from Cons.IH [OF this] show ?case
    by (simp add: acc'_def cn)
qed

lemma scan_results_acc:
  "scan_results rs acc = Inr ps \<Longrightarrow>
   ps = acc @ concat (map (\<lambda>r. map (\<lambda>b. \<lparr>ptype = the (names r (cls b)), confidence = conf b, bbox = xyxy b\<rparr>)
                 (filter (\<lambda>b. names r (cls b) = Some ''cat'' \<or> names r (cls b) = Some ''dog'') (boxes r))) rs)"
proof (induction rs arbitrary: acc)
  case Nil
  then show ?case by simp
next
  case (Cons r rs)
  from Cons.prems obtain ps1 where
    a: "scan_boxes (names r) (boxes r) acc = Inr ps1" and b: "scan_results rs ps1 = Inr ps"
    by (auto split: sum.splits)
  from scan_boxes_acc [OF a] Cons.IH [OF b] show ?case by simp
qed

text \<open>One pass through the loop, case by case.\<close>

lemmas tick_defs = loop_iteration_def try_body_def then_sleep_def Let_def

lemma loop_iteration_config:
  "st_config (snd (loop_iteration cv io s)) = st_config s"
  by (simp add: tick_defs split: sum.split prod.split option.split bool.split)

lemma monitoring_loop_length:
  "length (fst (monitoring_loop cv ios s)) = length ios"
  by (induction ios arbitrary: s) (simp_all add: split_beta Let_def)

lemma rejected_tick:
  assumes "t_time io - last_detection_time s < of_int (cooldown_seconds (st_config s))"
  shows "disk (snd (loop_iteration cv io s)) = disk s"
    and "last_detection_time (snd (loop_iteration cv io s)) = last_detection_time s"
    and "fst (loop_iteration cv io s) \<noteq> Saved p"
  using assms
  by (simp_all add: tick_defs split: sum.split prod.split option.split bool.split)

lemma last_changed:
  assumes "last_detection_time (snd (loop_iteration cv io s)) \<noteq> last_detection_time s"
  shows "\<exists>frame frame_bgr pets p d.
           detection_active s \<and> t_capture io = Inr frame \<and> cvtColor_RGB2BGR cv frame = Inr frame_bgr
         \<and> fst (detect_motion cv (st_config s) frame_bgr (background_frame s)) = Inr True
         \<and> \<not> t_time io - last_detection_time s < of_int (cooldown_seconds (st_config s))
         \<and> detect_pets (t_model io) (st_config s) frame_bgr = Inr pets
         \<and> save_detection (st_config s) (t_save io) (disk s) frame_bgr pets = (Inr p, d)
         \<and> last_detection_time (snd (loop_iteration cv io s)) = t_time io"
  using assms
  by (auto simp add: tick_defs split: sum.splits prod.splits option.splits bool.splits if_splits)

lemma tick_cooldown:
  assumes "detection_active s" and "t_capture io = Inr frame"
    and "cvtColor_RGB2BGR cv frame = Inr frame_bgr"
    and "detect_motion cv (st_config s) frame_bgr (background_frame s) = (Inr True, bg)"
    and "t_time io - last_detection_time s < of_int (cooldown_seconds (st_config s))"
  shows "loop_iteration cv io s =
           ((case sleep_fps (st_config s) of Some e \<Rightarrow> Failed e | None \<Rightarrow> Cooldown),
            s\<lparr>background_frame := bg\<rparr>)"
  using assms by (simp add: tick_defs split: option.split)

lemma tick_classifier_raises:
  assumes "detection_active s" and "t_capture io = Inr frame"
    and "cvtColor_RGB2BGR cv frame = Inr frame_bgr"
    and "detect_motion cv (st_config s) frame_bgr (background_frame s) = (Inr True, bg)"
    and "\<not> t_time io - last_detection_time s < of_int (cooldown_seconds (st_config s))"
    and "detect_pets (t_model io) (st_config s) frame_bgr = Inl e"
  shows "loop_iteration cv io s = (Failed e, s\<lparr>background_frame := bg\<rparr>)"
  using assms by (simp add: tick_defs)

lemma tick_saved:
  assumes "detection_active s" and "t_capture io = Inr frame"
    and "cvtColor_RGB2BGR cv frame = Inr frame_bgr"
    and "detect_motion cv (st_config s) frame_bgr (background_frame s) = (Inr True, bg)"
    and "\<not> t_time io - last_detection_time s < of_int (cooldown_seconds (st_config s))"
    and "detect_pets (t_model io) (st_config s) frame_bgr = Inr pets"
    and "save_detection (st_config s) (t_save io) (disk s) frame_bgr pets = (Inr p, d)"
  shows "loop_iteration cv io s =
           ((case sleep_fps (st_config s) of Some e \<Rightarrow> Failed e | None \<Rightarrow> Saved p),
            s\<lparr>background_frame := bg,
              disk := cleanup_old_files (st_config s) (t_refuses io) d,
              last_detection_time := t_time io\<rparr>)"
  using assms by (simp add: tick_defs split: option.split)

text \<open>
  While every clock reading stays within the cooldown of the stored time, the loop
  writes nothing and leaves the stored time alone.
\<close>

lemma window_rejects:
  assumes "\<forall>io \<in> set ios. t_time io - last_detection_time s < of_int (cooldown_seconds (st_config s))"
  shows "disk (snd (monitoring_loop cv ios s)) = disk s
       \<and> last_detection_time (snd (monitoring_loop cv ios s)) = last_detection_time s
       \<and> (\<forall>oc \<in> set (fst (monitoring_loop cv ios s)). \<forall>p. oc \<noteq> Saved p)"
  using assms
proof (induction ios arbitrary: s)
  case Nil
  show ?case by simp
next
  case (Cons io ios)
  let ?s' = "snd (loop_iteration cv io s)"
  from Cons.prems have now: "t_time io - last_detection_time s < of_int (cooldown_seconds (st_config s))"
    by simp
  note r = rejected_tick [OF now, of cv]
  have "\<forall>io' \<in> set ios. t_time io' - last_detection_time ?s' < of_int (cooldown_seconds (st_config ?s'))"
    using Cons.prems by (simp add: r(2) loop_iteration_config)
  from Cons.IH [OF this] show ?case
    using r by (simp add: split_beta Let_def)
qed

text \<open>Writing a file twice, and writing two different files.\<close>

lemma write_file_twice:
  assumes "froot b = froot a" and "fname b = fname a"
  shows "write_file b (write_file a fs) = write_file b fs"
proof (cases "list_ex (\<lambda>f. froot f = froot a \<and> fname f = fname a) fs")
  case True
  then have "list_ex (\<lambda>f. froot f = froot a \<and> fname f = fname a)
               (map (\<lambda>f. if froot f = froot a \<and> fname f = fname a then a else f) fs)"
    by (auto simp: list_ex_iff)
  with True show ?thesis
    using assms by (simp add: write_file_def comp_def)
next
  case False
  then have "map (\<lambda>f. if froot f = froot a \<and> fname f = fname a then b else f) fs = fs"
    by (induction fs) auto
  with False show ?thesis
    using assms by (simp add: write_file_def)
qed

lemma write_file_swap:
  assumes "froot a \<noteq> froot b \<or> fname a \<noteq> fname b"
    and "list_ex (\<lambda>f. froot f = froot a \<and> fname f = fname a) fs"
  shows "write_file a (write_file b fs) = write_file b (write_file a fs)"
proof -
  let ?Ra = "map (\<lambda>f. if froot f = froot a \<and> fname f = fname a then a else f)"
  let ?Rb = "map (\<lambda>f. if froot f = froot b \<and> fname f = fname b then b else f)"
  have exb: "list_ex (\<lambda>f. froot f = froot b \<and> fname f = fname b) (?Ra fs)
             = list_ex (\<lambda>f. froot f = froot b \<and> fname f = fname b) fs"
    using assms(1) by (auto simp: list_ex_iff)
  show ?thesis
  proof (cases "list_ex (\<lambda>f. froot f = froot b \<and> fname f = fname b) fs")
    case True
    have exa: "list_ex (\<lambda>f. froot f = froot a \<and> fname f = fname a) (?Rb fs)"
      using assms by (auto simp: list_ex_iff)
    have "?Ra (?Rb fs) = ?Rb (?Ra fs)"
      using assms(1) by auto
    with True exa exb assms(2) show ?thesis
      by (simp add: write_file_def del: map_map)
  next
    case False
    have exa: "list_ex (\<lambda>f. froot f = froot a \<and> fname f = fname a) (fs @ [b])"
      using assms(2) by (auto simp: list_ex_iff)
    have "?Ra (fs @ [b]) = ?Ra fs @ [b]"
      using assms(1) by auto
    with False exa exb assms(2) show ?thesis
      by (simp add: write_file_def del: map_append)
  qed
qed

lemma write_file_present:
  "list_ex (\<lambda>f. froot f = froot a \<and> fname f = fname a) (write_file a fs)"
  by (auto simp: write_file_def list_ex_iff)

lemma strftime_jpg_same_second:
  assumes "year t2 = year t1" and "month t2 = month t1" and "day t2 = day t1"
    and "hour t2 = hour t1" and "minute t2 = minute t1" and "second t2 = second t1"
  shows "strftime_jpg t2 = strftime_jpg t1"
  using assms by (simp add: strftime_jpg_def)

lemma with_suffix_strftime_jpg: "with_suffix (strftime_jpg t) ''.json'' \<noteq> strftime_jpg t"
proof -
  obtain stem where "strftime_jpg t = stem @ ''.jpg''"
    by (simp add: strftime_jpg_def)
  then show ?thesis by (simp add: with_suffix_def)
qed

text \<open>The names and timestamps of the sample times, and the ten entries written out.\<close>

lemma zfill_2: "zfill 2 n = [digit (n div 10), digit n]"
proof -
  have "(2::nat) = Suc (Suc 0)" by simp
  then show ?thesis by (simp only: zfill.simps append_Nil append_Cons)
qed

lemma strftime_jpg_at_second:
  "strftime_jpg (at_second sec usec) = ''20240309_0705'' @ [digit (sec div 10), digit sec] @ ''.jpg''"
proof -
  have "zfill 4 2024 @ zfill 2 3 @ zfill 2 9 @ ''_'' @ zfill 2 7 @ zfill 2 5 = ''20240309_0705''"
    by code_simp
  then show ?thesis
    by (simp add: strftime_jpg_def at_second_def zfill_2)
qed

lemma isoformat_at_second_5:
  "isoformat (at_second sec 5) = ''2024-03-09T07:05:'' @ [digit (sec div 10), digit sec] @ ''.000005''"
proof -
  have "zfill 4 2024 @ ''-'' @ zfill 2 3 @ ''-'' @ zfill 2 9 @ ''T'' @ zfill 2 7 @ '':'' @ zfill 2 5 @ '':''
               = ''2024-03-09T07:05:''
             \<and> zfill 6 5 = ''000005''"
    by code_simp
  then show ?thesis
    by (simp add: isoformat_def at_second_def zfill_2)
qed

lemma ten_writes_listing:
  "ten_writes =
      [\<lparr>froot = ''/home/pi/pet-door-data/cats'', fname = ''20240309_070500.jpg'', fsize = 1300000000,
        fmtime = 1709967900, fdata = Image [0]\<rparr>,
       \<lparr>froot = ''/home/pi/pet-door-data/cats'', fname = ''20240309_070500.json'', fsize = 300,
        fmtime = 1709967900,
        fdata = Metadata \<lparr>timestamp = ''2024-03-09T07:05:00.000005'', mcategory = ''cats'',
                           detections = a_cat, filename = ''20240309_070500.jpg''\<rparr>\<rparr>,
       \<lparr>froot = ''/home/pi/pet-door-data/unknown'', fname = ''20240309_070505.jpg'', fsize = 1300000000,
        fmtime = 1709967905, fdata = Image [5]\<rparr>,
       \<lparr>froot = ''/home/pi/pet-door-data/unknown'', fname = ''20240309_070505.json'', fsize = 300,
        fmtime = 1709967905,
        fdata = Metadata \<lparr>timestamp = ''2024-03-09T07:05:05.000005'', mcategory = ''unknown'',
                           detections = [], filename = ''20240309_070505.jpg''\<rparr>\<rparr>,
       \<lparr>froot = ''/home/pi/pet-door-data/dogs'', fname = ''20240309_070510.jpg'', fsize = 1300000000,
        fmtime = 1709967910, fdata = Image [10]\<rparr>,
       \<lparr>froot = ''/home/pi/pet-door-data/dogs'', fname = ''20240309_070510.json'', fsize = 300,
        fmtime = 1709967910,
        fdata = Metadata \<lparr>timestamp = ''2024-03-09T07:05:10.000005'', mcategory = ''dogs'',
                           detections = a_dog, filename = ''20240309_070510.jpg''\<rparr>\<rparr>,
       \<lparr>froot = ''/home/pi/pet-door-data/cats'', fname = ''20240309_070515.jpg'', fsize = 1300000000,
        fmtime = 1709967915, fdata = Image [15]\<rparr>,
       \<lparr>froot = ''/home/pi/pet-door-data/cats'', fname = ''20240309_070515.json'', fsize = 300,
        fmtime = 1709967915,
        fdata = Metadata \<lparr>timestamp = ''2024-03-09T07:05:15.000005'', mcategory = ''cats'',
                           detections = a_cat, filename = ''20240309_070515.jpg''\<rparr>\<rparr>,
       \<lparr>froot = ''/home/pi/pet-door-data/unknown'', fname = ''20240309_070520.jpg'', fsize = 1300000000,
        fmtime = 1709967920, fdata = Image [20]\<rparr>,
       \<lparr>froot = ''/home/pi/pet-door-data/unknown'', fname = ''20240309_070520.json'', fsize = 300,
        fmtime = 1709967920,
        fdata = Metadata \<lparr>timestamp = ''2024-03-09T07:05:20.000005'', mcategory = ''unknown'',
                           detections = [], filename = ''20240309_070520.jpg''\<rparr>\<rparr>,
       \<lparr>froot = ''/home/pi/pet-door-data/dogs'', fname = ''20240309_070525.jpg'', fsize = 1300000000,
        fmtime = 1709967925, fdata = Image [25]\<rparr>,
       \<lparr>froot = ''/home/pi/pet-door-data/dogs'', fname = ''20240309_070525.json'', fsize = 300,
        fmtime = 1709967925,
        fdata = Metadata \<lparr>timestamp = ''2024-03-09T07:05:25.000005'', mcategory = ''dogs'',
                           detections = a_dog, filename = ''20240309_070525.jpg''\<rparr>\<rparr>,
       \<lparr>froot = ''/home/pi/pet-door-data/cats'', fname = ''20240309_070530.jpg'', fsize = 1300000000,
        fmtime = 1709967930, fdata = Image [30]\<rparr>,
       \<lparr>froot = ''/home/pi/pet-door-data/cats'', fname = ''20240309_070530.json'', fsize = 300,
        fmtime = 1709967930,
        fdata = Metadata \<lparr>timestamp = ''2024-03-09T07:05:30.000005'', mcategory = ''cats'',
                           detections = a_cat, filename = ''20240309_070530.jpg''\<rparr>\<rparr>,
       \<lparr>froot = ''/home/pi/pet-door-data/unknown'', fname = ''20240309_070540.jpg'', fsize = 1300000000,
        fmtime = 1709967940, fdata = Image [40]\<rparr>,
       \<lparr>froot = ''/home/pi/pet-door-data/unknown'', fname = ''20240309_070540.json'', fsize = 300,
        fmtime = 1709967940,
        fdata = Metadata \<lparr>timestamp = ''2024-03-09T07:05:40.000005'', mcategory = ''unknown'',
                           detections = [], filename = ''20240309_070540.jpg''\<rparr>\<rparr>,
       \<lparr>froot = ''/home/pi/pet-door-data/dogs'', fname = ''20240309_070550.jpg'', fsize = 1300000000,
        fmtime = 1709967950, fdata = Image [50]\<rparr>,
       \<lparr>froot = ''/home/pi/pet-door-data/dogs'', fname = ''20240309_070550.json'', fsize = 300,
        fmtime = 1709967950,
        fdata = Metadata \<lparr>timestamp = ''2024-03-09T07:05:50.000005'', mcategory = ''dogs'',
                           detections = a_dog, filename = ''20240309_070550.jpg''\<rparr>\<rparr>,
       \<lparr>froot = ''/home/pi/pet-door-data/cats'', fname = ''20240309_070555.jpg'', fsize = 1300000000,
        fmtime = 1709967955, fdata = Image [55]\<rparr>,
       \<lparr>froot = ''/home/pi/pet-door-data/cats'', fname = ''20240309_070555.json'', fsize = 300,
        fmtime = 1709967955,
        fdata = Metadata \<lparr>timestamp = ''2024-03-09T07:05:55.000005'', mcategory = ''cats'',
                           detections = a_cat, filename = ''20240309_070555.jpg''\<rparr>\<rparr>]"
  by (simp add: ten_writes_def save_detection_def big_write_def strftime_jpg_at_second
      isoformat_at_second_5 digit_def category_def a_cat_def a_dog_def CONFIG_def os_path_join_def
      write_file_def with_suffix_def Let_def)

lemma ten_entries_listing:
  "ten_entries =
      [\<lparr>froot = ''/home/pi/pet-door-data/cats'', fname = ''20240309_070500.jpg'', fsize = 1300000000,
        fmtime = 1709967900, fdata = Image [0]\<rparr>,
       \<lparr>froot = ''/home/pi/pet-door-data/cats'', fname = ''20240309_070500.json'', fsize = 300,
        fmtime = 1709967900,
        fdata = Metadata \<lparr>timestamp = ''2024-03-09T07:05:00.000005'', mcategory = ''cats'',
                           detections = a_cat, filename = ''20240309_070500.jpg''\<rparr>\<rparr>,
       \<lparr>froot = ''/home/pi/pet-door-data/cats'', fname = ''20240309_070515.jpg'', fsize = 1300000000,
        fmtime = 1709967915, fdata = Image [15]\<rparr>,
       \<lparr>froot = ''/home/pi/pet-door-data/cats'', fname = ''20240309_070515.json'', fsize = 300,
        fmtime = 1709967915,
        fdata = Metadata \<lparr>timestamp = ''2024-03-09T07:05:15.000005'', mcategory = ''cats'',
                           detections = a_cat, filename = ''20240309_070515.jpg''\<rparr>\<rparr>,
       \<lparr>froot = ''/home/pi/pet-door-data/cats'', fname = ''20240309_070530.jpg'', fsize = 1300000000,
        fmtime = 1709967930, fdata = Image [30]\<rparr>,
       \<lparr>froot = ''/home/pi/pet-door-data/cats'', fname = ''20240309_070530.json'', fsize = 300,
        fmtime = 1709967930,
        fdata = Metadata \<lparr>timestamp = ''2024-03-09T07:05:30.000005'', mcategory = ''cats'',
                           detections = a_cat, filename = ''20240309_070530.jpg''\<rparr>\<rparr>,
       \<lparr>froot = ''/home/pi/pet-door-data/cats'', fname = ''20240309_070555.jpg'', fsize = 1300000000,
        fmtime = 1709967955, fdata = Image [55]\<rparr>,
       \<lparr>froot = ''/home/pi/pet-door-data/cats'', fname = ''20240309_070555.json'', fsize = 300,
        fmtime = 1709967955,
        fdata = Metadata \<lparr>timestamp = ''2024-03-09T07:05:55.000005'', mcategory = ''cats'',
                           detections = a_cat, filename = ''20240309_070555.jpg''\<rparr>\<rparr>,
       \<lparr>froot = ''/home/pi/pet-door-data/dogs'', fname = ''20240309_070510.jpg'', fsize = 1300000000,
        fmtime = 1709967910, fdata = Image [10]\<rparr>,
       \<lparr>froot = ''/home/pi/pet-door-data/dogs'', fname = ''20240309_070510.json'', fsize = 300,
        fmtime = 1709967910,
        fdata = Metadata \<lparr>timestamp = ''2024-03-09T07:05:10.000005'', mcategory = ''dogs'',
                           detections = a_dog, filename = ''20240309_070510.jpg''\<rparr>\<rparr>,
       \<lparr>froot = ''/home/pi/pet-door-data/dogs'', fname = ''20240309_070525.jpg'', fsize = 1300000000,
        fmtime = 1709967925, fdata = Image [25]\<rparr>,
       \<lparr>froot = ''/home/pi/pet-door-data/dogs'', fname = ''20240309_070525.json'', fsize = 300,
        fmtime = 1709967925,
        fdata = Metadata \<lparr>timestamp = ''2024-03-09T07:05:25.000005'', mcategory = ''dogs'',
                           detections = a_dog, filename = ''20240309_070525.jpg''\<rparr>\<rparr>,
       \<lparr>froot = ''/home/pi/pet-door-data/dogs'', fname = ''20240309_070550.jpg'', fsize = 1300000000,
        fmtime = 1709967950, fdata = Image [50]\<rparr>,
       \<lparr>froot = ''/home/pi/pet-door-data/dogs'', fname = ''20240309_070550.json'', fsize = 300,
        fmtime = 1709967950,
        fdata = Metadata \<lparr>timestamp = ''2024-03-09T07:05:50.000005'', mcategory = ''dogs'',
                           detections = a_dog, filename = ''20240309_070550.jpg''\<rparr>\<rparr>,
       \<lparr>froot = ''/home/pi/pet-door-data/unknown'', fname = ''20240309_070505.jpg'', fsize = 1300000000,
        fmtime = 1709967905, fdata = Image [5]\<rparr>,
       \<lparr>froot = ''/home/pi/pet-door-data/unknown'', fname = ''20240309_070505.json'', fsize = 300,
        fmtime = 1709967905,
        fdata = Metadata \<lparr>timestamp = ''2024-03-09T07:05:05.000005'', mcategory = ''unknown'',
                           detections = [], filename = ''20240309_070505.jpg''\<rparr>\<rparr>,
       \<lparr>froot = ''/home/pi/pet-door-data/unknown'', fname = ''20240309_070520.jpg'', fsize = 1300000000,
        fmtime = 1709967920, fdata = Image [20]\<rparr>,
       \<lparr>froot = ''/home/pi/pet-door-data/unknown'', fname = ''20240309_070520.json'', fsize = 300,
        fmtime = 1709967920,
        fdata = Metadata \<lparr>timestamp = ''2024-03-09T07:05:20.000005'', mcategory = ''unknown'',
                           detections = [], filename = ''20240309_070520.jpg''\<rparr>\<rparr>,
       \<lparr>froot = ''/home/pi/pet-door-data/unknown'', fname = ''20240309_070540.jpg'', fsize = 1300000000,
        fmtime = 1709967940, fdata = Image [40]\<rparr>,
       \<lparr>froot = ''/home/pi/pet-door-data/unknown'', fname = ''20240309_070540.json'', fsize = 300,
        fmtime = 1709967940,
        fdata = Metadata \<lparr>timestamp = ''2024-03-09T07:05:40.000005'', mcategory = ''unknown'',
                           detections = [], filename = ''20240309_070540.jpg''\<rparr>\<rparr>]"
  by (simp add: ten_entries_def ten_writes_listing)

text \<open>What a cleanup pass selects and what it leaves.\<close>

lemma cleanup_old_files_filter:
  "cleanup_old_files cfg refuses fs =
     (if get_storage_usage_gb cfg fs \<le> of_int (high_water_mark_gb cfg) then fs
      else filter (\<lambda>f. fpath f \<in> set (to_delete cfg fs) \<longrightarrow> refuses (fpath f)) fs)"
  by (simp add: cleanup_old_files_def remove_each_filter)

lemma all_files_images: "all_files cfg fs = map (\<lambda>f. (fpath f, fmtime f)) (images cfg fs)"
  by (simp add: all_files_def images_def)

lemma images_filter: "images cfg (filter Q fs) = filter Q (images cfg fs)"
  by (auto simp: images_def os_walk_def intro: filter_cong)

lemma to_delete_take:
  "to_delete cfg fs =
     take (files_to_delete (length (all_files cfg fs))) (map fst (sort_key snd (all_files cfg fs)))"
  by (simp add: to_delete_def take_map)

lemma to_delete_subset: "set (to_delete cfg fs) \<subseteq> fpath ` set (images cfg fs)"
proof -
  have "set (to_delete cfg fs) \<subseteq> set (map fst (sort_key snd (all_files cfg fs)))"
    unfolding to_delete_take by (rule set_take_subset)
  also have "\<dots> = fpath ` set (images cfg fs)"
    by (force simp: all_files_images)
  finally show ?thesis .
qed

lemma to_delete_distinct:
  assumes "distinct (map fpath fs)"
  shows "distinct (to_delete cfg fs)"
proof -
  have "distinct (map fpath (images cfg fs))"
    unfolding images_def os_walk_def using assms by (simp add: distinct_map_filter)
  then have "distinct (map fst (all_files cfg fs))"
    by (simp add: all_files_images comp_def)
  then have "card (set (map fst (all_files cfg fs))) = length (map fst (all_files cfg fs))"
    by (rule distinct_card)
  then have "card (set (map fst (sort_key snd (all_files cfg fs))))
               = length (map fst (sort_key snd (all_files cfg fs)))"
    by simp
  then have "distinct (map fst (sort_key snd (all_files cfg fs)))"
    by (rule card_distinct)
  then show ?thesis
    unfolding to_delete_take by (rule distinct_take)
qed

lemma to_delete_length:
  assumes "length (all_files cfg fs) < 2 ^ 54"
  shows "length (to_delete cfg fs) = length (all_files cfg fs) div 5"
  by (simp add: to_delete_def files_to_delete_fifth [OF assms])

lemma to_delete_oldest:
  assumes "p \<in> set (take (files_to_delete (length (all_files cfg fs))) (sort_key snd (all_files cfg fs)))"
    and "q \<in> set (drop (files_to_delete (length (all_files cfg fs))) (sort_key snd (all_files cfg fs)))"
  shows "snd p \<le> snd q"
proof -
  let ?S = "sort_key snd (all_files cfg fs)"
  let ?k = "files_to_delete (length (all_files cfg fs))"
  have "sorted (map snd ?S)" by (rule sorted_sort_key)
  then have "sorted (map snd (take ?k ?S) @ map snd (drop ?k ?S))"
    by (simp only: map_append [symmetric] append_take_drop_id)
  then have "\<forall>x \<in> set (map snd (take ?k ?S)). \<forall>y \<in> set (map snd (drop ?k ?S)). x \<le> y"
    by (simp only: sorted_append) blast
  with assms show ?thesis by simp
qed

lemma removed_count:
  assumes d: "distinct (map fpath fs)"
  shows "length (filter (\<lambda>f. fpath f \<in> set (to_delete cfg fs)) (images cfg fs))
           = length (to_delete cfg fs)"
proof -
  let ?T = "to_delete cfg fs"
  let ?J = "images cfg fs"
  have dJ: "distinct (map fpath ?J)"
    unfolding images_def os_walk_def using d by (simp add: distinct_map_filter)
  have "length (filter (\<lambda>f. fpath f \<in> set ?T) ?J)
          = length (filter (\<lambda>p. p \<in> set ?T) (map fpath ?J))"
    by (simp add: filter_map comp_def)
  also have "\<dots> = card ({p. p \<in> set ?T} \<inter> set (map fpath ?J))"
    using dJ by (rule distinct_length_filter)
  also have "{p. p \<in> set ?T} \<inter> set (map fpath ?J) = set ?T"
    using to_delete_subset [of cfg fs] by auto
  also have "card (set ?T) = length ?T"
    using to_delete_distinct [OF d] by (rule distinct_card)
  finally show ?thesis .
qed

text \<open>The cleanup pass on the ten entries.\<close>

lemma ten_entries_usage:
  "\<not> get_storage_usage_gb (CONFIG ''/home/pi'') ten_entries
       \<le> of_int (high_water_mark_gb (CONFIG ''/home/pi''))"
  by (simp add: get_storage_usage_gb_def ten_entries_listing os_walk_def startswith_def
      os_path_join_def CONFIG_def)

lemma ten_entries_all_files:
  "all_files (CONFIG ''/home/pi'') ten_entries =
     [(''/home/pi/pet-door-data/cats/20240309_070500.jpg'', 1709967900),
      (''/home/pi/pet-door-data/cats/20240309_070515.jpg'', 1709967915),
      (''/home/pi/pet-door-data/cats/20240309_070530.jpg'', 1709967930),
      (''/home/pi/pet-door-data/cats/20240309_070555.jpg'', 1709967955),
      (''/home/pi/pet-door-data/dogs/20240309_070510.jpg'', 1709967910),
      (''/home/pi/pet-door-data/dogs/20240309_070525.jpg'', 1709967925),
      (''/home/pi/pet-door-data/dogs/20240309_070550.jpg'', 1709967950),
      (''/home/pi/pet-door-data/unknown/20240309_070505.jpg'', 1709967905),
      (''/home/pi/pet-door-data/unknown/20240309_070520.jpg'', 1709967920),
      (''/home/pi/pet-door-data/unknown/20240309_070540.jpg'', 1709967940)]"
  by (simp add: all_files_def ten_entries_listing os_walk_def startswith_def endswith_def
      fpath_def os_path_join_def CONFIG_def)

lemma ten_entries_to_delete:
  "to_delete (CONFIG ''/home/pi'') ten_entries =
     [''/home/pi/pet-door-data/cats/20240309_070500.jpg'',
      ''/home/pi/pet-door-data/unknown/20240309_070505.jpg'']"
  by (simp add: to_delete_def ten_entries_all_files files_to_delete_def)

lemma ten_entries_distinct: "distinct (map fpath ten_entries)"
  by (simp add: ten_entries_listing fpath_def os_path_join_def)

text \<open>
  The deletion endpoint, unlike a cleanup pass, removes the image and the sidecar of
  the entry it is given.
\<close>

lemma delete_detection_removes_both:
  assumes "\<forall>p. \<not> refuses p"
  shows "delete_detection cfg refuses cat image_id fs =
           (Inr (),
            filter (\<lambda>f. fpath f \<noteq> os_path_join (os_path_join (storage_path cfg) cat) (image_id @ ''.jpg'')
                      \<and> fpath f \<noteq> os_path_join (os_path_join (storage_path cfg) cat) (image_id @ ''.json''))
              fs)"
proof -
  have rm: "(if list_ex (\<lambda>f. fpath f = p) xs then os_remove refuses p xs else Inr xs)
              = Inr (filter (\<lambda>f. fpath f \<noteq> p) xs)" for p and xs :: "'a diskfile list"
  proof (cases "list_ex (\<lambda>f. fpath f = p) xs")
    case True
    with assms show ?thesis by (simp add: os_remove_def)
  next
    case False
    then have "filter (\<lambda>f. fpath f \<noteq> p) xs = xs"
      by (induction xs) auto
    with False show ?thesis by simp
  qed
  show ?thesis
    by (simp add: delete_detection_def Let_def rm)
qed

subsection \<open>The claims\<close>

text \<open>
  C8. For every detection list handed to the evidence writer the category is \<open>cats\<close> if
  some detection has type \<open>cat\<close>, otherwise \<open>dogs\<close> if some detection has type \<open>dog\<close>,
  otherwise \<open>unknown\<close>; the empty list gives \<open>unknown\<close>.
\<close>

theorem category_priority:
  "category pets =
     (if (\<exists>p \<in> set pets. ptype p = ''cat'') then ''cats''
      else if (\<exists>p \<in> set pets. ptype p = ''dog'') then ''dogs''
      else ''unknown'')
   \<and> category [] = ''unknown''"
  by (auto simp: category_def list_ex_iff)

theorem category_priority_witness:
  "category [\<lparr>ptype = ''dog'', confidence = 3/5, bbox = [0, 0, 10, 10]\<rparr>,
             \<lparr>ptype = ''cat'', confidence = 7/10, bbox = [5, 5, 20, 20]\<rparr>] = ''cats''
   \<and> category [\<lparr>ptype = ''dog'', confidence = 3/5, bbox = [0, 0, 10, 10]\<rparr>] = ''dogs''
   \<and> category [\<lparr>ptype = ''cat'', confidence = 3/5, bbox = [0, 0, 10, 10]\<rparr>] = ''cats''
   \<and> category [] = ''unknown''"
  using category_priority
    [of "[\<lparr>ptype = ''dog'', confidence = 3/5, bbox = [0, 0, 10, 10]\<rparr>,
          \<lparr>ptype = ''cat'', confidence = 7/10, bbox = [5, 5, 20, 20]\<rparr>]"]
    category_priority [of "[\<lparr>ptype = ''dog'', confidence = 3/5, bbox = [0, 0, 10, 10]\<rparr>]"]
    category_priority [of "[\<lparr>ptype = ''cat'', confidence = 3/5, bbox = [0, 0, 10, 10]\<rparr>]"]
  by simp

text \<open>
  C9 (as amended). Every record that \<open>detect_pets\<close> returns is a box of the model whose
  label is \<open>cat\<close> or \<open>dog\<close>, with the confidence the model reported, and every such box
  is returned: boxes with another label are dropped, and no box is dropped for its
  confidence. The threshold is only handed to the model; the returned confidences are
  at least the threshold whenever those of the model's boxes are.
\<close>

theorem detect_pets_filters_labels_only:
  assumes "model frame (detection_confidence cfg) = Inr results"
    and "detect_pets model cfg frame = Inr pets"
  shows "pets = concat (map (\<lambda>r. map (\<lambda>b. \<lparr>ptype = the (names r (cls b)), confidence = conf b, bbox = xyxy b\<rparr>)
                 (filter (\<lambda>b. names r (cls b) = Some ''cat'' \<or> names r (cls b) = Some ''dog'') (boxes r))) results)
       \<and> (\<forall>p \<in> set pets. ptype p = ''cat'' \<or> ptype p = ''dog'')
       \<and> ((\<forall>r \<in> set results. \<forall>b \<in> set (boxes r). detection_confidence cfg \<le> conf b)
            \<longrightarrow> (\<forall>p \<in> set pets. detection_confidence cfg \<le> confidence p))"
proof -
  from assms have "scan_results results [] = Inr pets"
    by (simp add: detect_pets_def)
  from scan_results_acc [OF this] have eq:
    "pets = concat (map (\<lambda>r. map (\<lambda>b. \<lparr>ptype = the (names r (cls b)), confidence = conf b, bbox = xyxy b\<rparr>)
                 (filter (\<lambda>b. names r (cls b) = Some ''cat'' \<or> names r (cls b) = Some ''dog'') (boxes r))) results)"
    by simp
  have labels: "\<forall>p \<in> set pets. ptype p = ''cat'' \<or> ptype p = ''dog''"
    unfolding eq by auto
  have confs: "(\<forall>r \<in> set results. \<forall>b \<in> set (boxes r). detection_confidence cfg \<le> conf b)
            \<longrightarrow> (\<forall>p \<in> set pets. detection_confidence cfg \<le> confidence p)"
    unfolding eq by auto
  from eq labels confs show ?thesis by blast
qed

theorem detect_pets_filters_labels_only_witness:
  "detect_pets (\<lambda>(f::nat list) c. Inr [\<lparr>boxes = [\<lparr>cls = 16, conf = 4 / 5, xyxy = [1, 2, 3, 4]\<rparr>,
                                                \<lparr>cls = 0, conf = 9 / 10, xyxy = [5, 6, 7, 8]\<rparr>],
                                       names = [0 \<mapsto> ''person'', 15 \<mapsto> ''cat'', 16 \<mapsto> ''dog'']\<rparr>])
       (CONFIG ''/home/pi'') [0, 0, 0]
     = Inr [\<lparr>ptype = ''dog'', confidence = 4 / 5, bbox = [1, 2, 3, 4]\<rparr>]
   \<and> detection_confidence (CONFIG ''/home/pi'')
       \<le> confidence \<lparr>ptype = ''dog'', confidence = 4 / 5, bbox = [1, 2, 3, 4]\<rparr>"
proof -
  let ?model = "\<lambda>(f::nat list) (c::rat). (Inr [\<lparr>boxes = [\<lparr>cls = 16, conf = 4 / 5, xyxy = [1, 2, 3, 4]\<rparr>,
                                                \<lparr>cls = 0, conf = 9 / 10, xyxy = [5, 6, 7, 8]\<rparr>],
                                       names = [0 \<mapsto> ''person'', 15 \<mapsto> ''cat'', 16 \<mapsto> ''dog'']\<rparr>] :: error + result list)"
  have run: "detect_pets ?model (CONFIG ''/home/pi'') [0, 0, 0]
     = Inr [\<lparr>ptype = ''dog'', confidence = 4 / 5, bbox = [1, 2, 3, 4]\<rparr>]"
    by (simp add: detect_pets_def)
  have m: "?model [0, 0, 0] (detection_confidence (CONFIG ''/home/pi'')) = Inr [\<lparr>boxes = [\<lparr>cls = 16, conf = 4 / 5, xyxy = [1, 2, 3, 4]\<rparr>,
                                                \<lparr>cls = 0, conf = 9 / 10, xyxy = [5, 6, 7, 8]\<rparr>],
                                       names = [0 \<mapsto> ''person'', 15 \<mapsto> ''cat'', 16 \<mapsto> ''dog'']\<rparr>]"
    by simp
  have hyp: "\<forall>r \<in> set [\<lparr>boxes = [\<lparr>cls = 16, conf = 4 / 5, xyxy = [1, 2, 3, 4]\<rparr>,
                                                \<lparr>cls = 0, conf = 9 / 10, xyxy = [5, 6, 7, 8::rat]\<rparr>],
                                       names = [0 \<mapsto> ''person'', 15 \<mapsto> ''cat'', 16 \<mapsto> ''dog'']\<rparr>]. \<forall>b \<in> set (boxes r).
      detection_confidence (CONFIG ''/home/pi'') \<le> conf b"
    by (simp add: CONFIG_def)
  from detect_pets_filters_labels_only [OF m run] hyp run show ?thesis by simp
qed

text \<open>
  C9, the claim as stated, fails on the mock model: with the threshold set to 0.9, a
  draw of one cat with confidence 0.6 is returned.
\<close>

theorem detect_pets_below_threshold_counterexample:
  "mock_draws_ok [\<lparr>m_cls = 15, m_conf = 3 / 5, m_x1 = 10, m_y1 = 20, m_w = 100, m_h = 150\<rparr>]
   \<and> detect_pets (MockYOLO [\<lparr>m_cls = 15, m_conf = 3 / 5, m_x1 = 10, m_y1 = 20, m_w = 100, m_h = 150\<rparr>])
       ((CONFIG ''/home/pi'')\<lparr>detection_confidence := 9 / 10\<rparr>) [0::nat, 0, 0]
     = Inr [\<lparr>ptype = ''cat'', confidence = 3 / 5, bbox = [10, 20, 110, 170]\<rparr>]
   \<and> confidence \<lparr>ptype = ''cat'', confidence = 3 / 5, bbox = [10, 20, 110, 170]\<rparr>
       < detection_confidence ((CONFIG ''/home/pi'')\<lparr>detection_confidence := 9 / 10\<rparr>)"
  by (simp add: mock_draws_ok_def detect_pets_def MockYOLO_def MockBox_def)

text \<open>
  C6. With no background yet (\<open>background_frame\<close> is \<open>None\<close>, as at start-up), the first
  evaluation of the motion gate never reports motion, whatever the frame; when the
  grey conversion and the blur succeed it returns \<open>False\<close> and the blurred grey frame
  becomes the background.
\<close>

theorem detect_motion_first_call:
  "fst (detect_motion cv cfg frame None) \<noteq> Inr True
   \<and> (cvtColor_BGR2GRAY cv frame = Inr gray0 \<longrightarrow> GaussianBlur cv gray0 (21, 21) 0 = Inr gray
        \<longrightarrow> detect_motion cv cfg frame None = (Inr False, Some gray))"
  by (simp add: detect_motion_def split: sum.split)

theorem detect_motion_first_call_witness:
  "cvtColor_BGR2GRAY column_cv [200, 10, 35] = Inr [200, 10, 35]
   \<and> GaussianBlur column_cv [200, 10, 35] (21, 21) 0 = Inr [200, 10, 35]
   \<and> detect_motion column_cv (CONFIG ''/home/pi'') [200, 10, 35] None
       = (Inr False, Some [200, 10, 35])"
  using detect_motion_first_call
    [of column_cv "CONFIG ''/home/pi''" "[200, 10, 35]" "[200, 10, 35]" "[200, 10, 35]"]
  by (simp add: column_cv_def)

text \<open>
  Every request to the configuration endpoint ends in the exception of \<open>jsonify\<close> or
  in that of a conversion.
\<close>

lemma handle_config_raises:
  "\<exists>e. fst (handle_config py_int py_float m data cfg) = Inl e"
  by (simp add: handle_config_def jsonify_CONFIG_def split: option.split sum.split)




text \<open>
  C10. One pass through the loop changes \<open>last_detection_time\<close> only when the camera,
  the motion gate, the cooldown test, the classifier and \<open>save_detection\<close> have all
  succeeded, and then sets it to the clock reading taken before the classifier ran. In
  particular, when the classifier raises, or \<open>save_detection\<close> raises, the stored time
  is what it was.
\<close>

theorem last_detection_time_only_after_write:
  "(last_detection_time (snd (loop_iteration cv io s)) \<noteq> last_detection_time s \<longrightarrow>
      (\<exists>frame frame_bgr pets p d.
           detection_active s \<and> t_capture io = Inr frame \<and> cvtColor_RGB2BGR cv frame = Inr frame_bgr
         \<and> fst (detect_motion cv (st_config s) frame_bgr (background_frame s)) = Inr True
         \<and> \<not> t_time io - last_detection_time s < of_int (cooldown_seconds (st_config s))
         \<and> detect_pets (t_model io) (st_config s) frame_bgr = Inr pets
         \<and> save_detection (st_config s) (t_save io) (disk s) frame_bgr pets = (Inr p, d)
         \<and> last_detection_time (snd (loop_iteration cv io s)) = t_time io))
   \<and> (t_capture io = Inr frame \<longrightarrow> cvtColor_RGB2BGR cv frame = Inr frame_bgr \<longrightarrow>
        (detect_pets (t_model io) (st_config s) frame_bgr = Inl e
         \<or> (\<exists>pets d. detect_pets (t_model io) (st_config s) frame_bgr = Inr pets
                    \<and> save_detection (st_config s) (t_save io) (disk s) frame_bgr pets = (Inl e, d)))
        \<longrightarrow> last_detection_time (snd (loop_iteration cv io s)) = last_detection_time s)"
proof (intro conjI impI)
  assume "last_detection_time (snd (loop_iteration cv io s)) \<noteq> last_detection_time s"
  then show "\<exists>frame frame_bgr pets p d.
           detection_active s \<and> t_capture io = Inr frame \<and> cvtColor_RGB2BGR cv frame = Inr frame_bgr
         \<and> fst (detect_motion cv (st_config s) frame_bgr (background_frame s)) = Inr True
         \<and> \<not> t_time io - last_detection_time s < of_int (cooldown_seconds (st_config s))
         \<and> detect_pets (t_model io) (st_config s) frame_bgr = Inr pets
         \<and> save_detection (st_config s) (t_save io) (disk s) frame_bgr pets = (Inr p, d)
         \<and> last_detection_time (snd (loop_iteration cv io s)) = t_time io"
    by (rule last_changed)
next
  assume c: "t_capture io = Inr frame" and b: "cvtColor_RGB2BGR cv frame = Inr frame_bgr"
    and f: "detect_pets (t_model io) (st_config s) frame_bgr = Inl e
         \<or> (\<exists>pets d. detect_pets (t_model io) (st_config s) frame_bgr = Inr pets
                    \<and> save_detection (st_config s) (t_save io) (disk s) frame_bgr pets = (Inl e, d))"
  show "last_detection_time (snd (loop_iteration cv io s)) = last_detection_time s"
  proof (rule ccontr)
    assume "last_detection_time (snd (loop_iteration cv io s)) \<noteq> last_detection_time s"
    from last_changed [OF this] obtain frame' frame_bgr' pets p d where
      "t_capture io = Inr frame'" "cvtColor_RGB2BGR cv frame' = Inr frame_bgr'"
      "detect_pets (t_model io) (st_config s) frame_bgr' = Inr pets"
      "save_detection (st_config s) (t_save io) (disk s) frame_bgr' pets = (Inr p, d)"
      by blast
    with c b f show False by auto
  qed
qed

theorem last_detection_time_only_after_write_witness:
  "t_capture (tick 1709967901 [255, 255, 255] (Inl RuntimeError) (at_second 1 5)) = Inr [255, 255, 255]
   \<and> cvtColor_RGB2BGR column_cv [255, 255, 255] = Inr [255, 255, 255]
   \<and> detect_pets (t_model (tick 1709967901 [255, 255, 255] (Inl RuntimeError) (at_second 1 5)))
        (st_config (start\<lparr>background_frame := Some [0, 0, 0]\<rparr>)) [255, 255, 255] = Inl RuntimeError
   \<and> fst (detect_motion column_cv (st_config (start\<lparr>background_frame := Some [0, 0, 0]\<rparr>))
             [255, 255, 255] (background_frame (start\<lparr>background_frame := Some [0, 0, 0]\<rparr>)))
       = Inr True
   \<and> \<not> t_time (tick 1709967901 [255, 255, 255] (Inl RuntimeError) (at_second 1 5))
           - last_detection_time (start\<lparr>background_frame := Some [0, 0, 0]\<rparr>)
         < of_int (cooldown_seconds (st_config (start\<lparr>background_frame := Some [0, 0, 0]\<rparr>)))
   \<and> last_detection_time
        (snd (loop_iteration column_cv
               (tick 1709967901 [255, 255, 255] (Inl RuntimeError) (at_second 1 5))
               (start\<lparr>background_frame := Some [0, 0, 0]\<rparr>)))
       = last_detection_time (start\<lparr>background_frame := Some [0, 0, 0]\<rparr>)"
  using last_detection_time_only_after_write
    [of column_cv "tick 1709967901 [255, 255, 255] (Inl RuntimeError) (at_second 1 5)"
        "start\<lparr>background_frame := Some [0, 0, 0]\<rparr>" "[255, 255, 255]" "[255, 255, 255]"
        RuntimeError]
  by (simp add: tick_def column_cv_def detect_pets_def detect_motion_def start_def CONFIG_def)

text \<open>
  C5. When the classifier raises on an iteration (one on which the camera delivered a
  frame, the motion gate reported motion and the cooldown had passed), the exception is
  caught: the iteration ends with the outcome \<open>Failed\<close>, the storage tree, the
  configuration and \<open>last_detection_time\<close> are as before (only the motion gate's
  background has moved on), and the loop goes on with the remaining iterations from
  that state. Whatever fails, every iteration of the loop ends with an outcome. And
  whatever raises inside the \<open>try\<close> block of an iteration (the camera, a conversion,
  the motion gate, the classifier, the write, the sleep), the iteration ends with the
  outcome \<open>Failed\<close> and the loop goes on with the remaining iterations, which run as
  they would from the state in which the exception was raised.
\<close>

theorem classifier_failure_keeps_loop_running:
  assumes "detection_active s" and "t_capture io = Inr frame"
    and "cvtColor_RGB2BGR cv frame = Inr frame_bgr"
    and "detect_motion cv (st_config s) frame_bgr (background_frame s) = (Inr True, bg)"
    and "\<not> t_time io - last_detection_time s < of_int (cooldown_seconds (st_config s))"
    and "detect_pets (t_model io) (st_config s) frame_bgr = Inl e"
  shows "loop_iteration cv io s = (Failed e, s\<lparr>background_frame := bg\<rparr>)
       \<and> disk (snd (loop_iteration cv io s)) = disk s
       \<and> monitoring_loop cv (io # ios) s =
           (Failed e # fst (monitoring_loop cv ios (s\<lparr>background_frame := bg\<rparr>)),
            snd (monitoring_loop cv ios (s\<lparr>background_frame := bg\<rparr>)))
       \<and> length (fst (monitoring_loop cv (io # ios) s)) = Suc (length ios)
       \<and> length (fst (monitoring_loop cv ios' s')) = length ios'
       \<and> (detection_active st \<longrightarrow> try_body cv tk st = (Inl err, st') \<longrightarrow>
              loop_iteration cv tk st = (Failed err, st')
            \<and> monitoring_loop cv (tk # rest) st =
                (Failed err # fst (monitoring_loop cv rest st'),
                 snd (monitoring_loop cv rest st')))"
proof -
  have any: "detection_active st \<longrightarrow> try_body cv tk st = (Inl err, st') \<longrightarrow>
              loop_iteration cv tk st = (Failed err, st')
            \<and> monitoring_loop cv (tk # rest) st =
                (Failed err # fst (monitoring_loop cv rest st'),
                 snd (monitoring_loop cv rest st'))"
    by (simp add: loop_iteration_def split_beta)
  have one: "loop_iteration cv io s = (Failed e, s\<lparr>background_frame := bg\<rparr>)"
    using assms by (rule tick_classifier_raises)
  then have run: "monitoring_loop cv (io # ios) s =
           (Failed e # fst (monitoring_loop cv ios (s\<lparr>background_frame := bg\<rparr>)),
            snd (monitoring_loop cv ios (s\<lparr>background_frame := bg\<rparr>)))"
    by (simp add: split_beta)
  from one have d: "disk (snd (loop_iteration cv io s)) = disk s" by simp
  from one run d have "loop_iteration cv io s = (Failed e, s\<lparr>background_frame := bg\<rparr>)
       \<and> disk (snd (loop_iteration cv io s)) = disk s
       \<and> monitoring_loop cv (io # ios) s =
           (Failed e # fst (monitoring_loop cv ios (s\<lparr>background_frame := bg\<rparr>)),
            snd (monitoring_loop cv ios (s\<lparr>background_frame := bg\<rparr>)))
       \<and> length (fst (monitoring_loop cv (io # ios) s)) = Suc (length ios)
       \<and> length (fst (monitoring_loop cv ios' s')) = length ios'"
    by (simp only: monitoring_loop_length length_Cons fst_conv simp_thms)
  with any show ?thesis by blast
qed


text \<open>The names and timestamps that \<open>strftime\<close> and \<open>isoformat\<close> give at the sample times.\<close>

lemma strftime_jpg_at_second_2: "strftime_jpg (at_second 2 5) = ''20240309_070502.jpg''"
  by code_simp

lemma isoformat_at_second_2: "isoformat (at_second 2 5) = ''2024-03-09T07:05:02.000005''"
  by code_simp

lemma save_detection_at_second_2:
  "save_detection (CONFIG ''/home/pi'')
     (t_save (tick 1709967902 [255, 255, 255] (Inr []) (at_second 2 5))) [] [255, 255, 255::nat] []
   = (Inr ''/home/pi/pet-door-data/unknown/20240309_070502.jpg'',
      [\<lparr>froot = ''/home/pi/pet-door-data/unknown'', fname = ''20240309_070502.jpg'',
        fsize = 200000, fmtime = 1709967902, fdata = Image [255, 255, 255]\<rparr>,
       \<lparr>froot = ''/home/pi/pet-door-data/unknown'', fname = ''20240309_070502.json'',
        fsize = 300, fmtime = 1709967902,
        fdata = Metadata \<lparr>timestamp = ''2024-03-09T07:05:02.000005'', mcategory = ''unknown'',
                           detections = [], filename = ''20240309_070502.jpg''\<rparr>\<rparr>])"
  by (simp add: save_detection_def tick_def strftime_jpg_at_second_2 isoformat_at_second_2
      category_def CONFIG_def os_path_join_def write_file_def with_suffix_def Let_def)

lemma good_tick_at_second_2:
  "loop_iteration column_cv (tick 1709967902 [255, 255, 255] (Inr []) (at_second 2 5))
     (start\<lparr>background_frame := Some [26, 26, 26]\<rparr>)
   = (Saved ''/home/pi/pet-door-data/unknown/20240309_070502.jpg'',
      start\<lparr>background_frame := Some [49, 49, 49],
            disk := [\<lparr>froot = ''/home/pi/pet-door-data/unknown'', fname = ''20240309_070502.jpg'',
        fsize = 200000, fmtime = 1709967902, fdata = Image [255, 255, 255]\<rparr>,
       \<lparr>froot = ''/home/pi/pet-door-data/unknown'', fname = ''20240309_070502.json'',
        fsize = 300, fmtime = 1709967902,
        fdata = Metadata \<lparr>timestamp = ''2024-03-09T07:05:02.000005'', mcategory = ''unknown'',
                           detections = [], filename = ''20240309_070502.jpg''\<rparr>\<rparr>],
            last_detection_time := 1709967902\<rparr>)"
proof -
  let ?io = "tick 1709967902 [255, 255, 255] (Inr []) (at_second 2 5)"
  let ?s = "start\<lparr>background_frame := Some [26, 26, 26]\<rparr>"
  have a: "detection_active ?s" by (simp add: start_def)
  have c: "t_capture ?io = Inr [255, 255, 255]" by (simp add: tick_def)
  have b: "cvtColor_RGB2BGR column_cv [255, 255, 255] = Inr [255, 255, 255]"
    by (simp add: column_cv_def)
  have m: "detect_motion column_cv (st_config ?s) [255, 255, 255] (background_frame ?s)
           = (Inr True, Some [49, 49, 49])"
  proof -
    have "\<lfloor>247 / 5 :: rat\<rfloor> = 49" by (rule floor_unique) simp_all
    then show ?thesis
      by (simp add: detect_motion_def column_cv_def start_def CONFIG_def)
  qed
  have t: "\<not> t_time ?io - last_detection_time ?s < of_int (cooldown_seconds (st_config ?s))"
    by (simp add: tick_def start_def CONFIG_def)
  have p: "detect_pets (t_model ?io) (st_config ?s) [255, 255, 255] = Inr []"
    by (simp add: detect_pets_def tick_def)
  have w: "save_detection (st_config ?s) (t_save ?io) (disk ?s) [255, 255, 255] []
   = (Inr ''/home/pi/pet-door-data/unknown/20240309_070502.jpg'',
      [\<lparr>froot = ''/home/pi/pet-door-data/unknown'', fname = ''20240309_070502.jpg'',
        fsize = 200000, fmtime = 1709967902, fdata = Image [255, 255, 255]\<rparr>,
       \<lparr>froot = ''/home/pi/pet-door-data/unknown'', fname = ''20240309_070502.json'',
        fsize = 300, fmtime = 1709967902,
        fdata = Metadata \<lparr>timestamp = ''2024-03-09T07:05:02.000005'', mcategory = ''unknown'',
                           detections = [], filename = ''20240309_070502.jpg''\<rparr>\<rparr>])"
    using save_detection_at_second_2 by (simp add: start_def)
  have k: "cleanup_old_files (st_config ?s) (t_refuses ?io)
      [\<lparr>froot = ''/home/pi/pet-door-data/unknown'', fname = ''20240309_070502.jpg'',
        fsize = 200000, fmtime = 1709967902, fdata = Image [255, 255, 255]\<rparr>,
       \<lparr>froot = ''/home/pi/pet-door-data/unknown'', fname = ''20240309_070502.json'',
        fsize = 300, fmtime = 1709967902,
        fdata = Metadata \<lparr>timestamp = ''2024-03-09T07:05:02.000005'', mcategory = ''unknown'',
                           detections = [], filename = ''20240309_070502.jpg''\<rparr>\<rparr>]
     = [\<lparr>froot = ''/home/pi/pet-door-data/unknown'', fname = ''20240309_070502.jpg'',
        fsize = 200000, fmtime = 1709967902, fdata = Image [255, 255, 255::nat]\<rparr>,
       \<lparr>froot = ''/home/pi/pet-door-data/unknown'', fname = ''20240309_070502.json'',
        fsize = 300, fmtime = 1709967902,
        fdata = Metadata \<lparr>timestamp = ''2024-03-09T07:05:02.000005'', mcategory = ''unknown'',
                           detections = [], filename = ''20240309_070502.jpg''\<rparr>\<rparr>]"
    by (simp add: cleanup_old_files_def get_storage_usage_gb_def os_walk_def start_def
        CONFIG_def os_path_join_def startswith_def)
  have f: "sleep_fps (st_config ?s) = None" by (simp add: sleep_fps_def start_def CONFIG_def)
  show ?thesis
    unfolding tick_saved [OF a c b m t p w] k f by (simp add: start_def tick_def)
qed

theorem classifier_failure_keeps_loop_running_witness:
  "detect_motion column_cv (st_config (start\<lparr>background_frame := Some [0, 0, 0]\<rparr>)) [255, 255, 255]
       (background_frame (start\<lparr>background_frame := Some [0, 0, 0]\<rparr>))
     = (Inr True, Some [26, 26, 26])
   \<and> detect_pets (t_model (tick 1709967901 [255, 255, 255] (Inl RuntimeError) (at_second 1 5)))
        (st_config (start\<lparr>background_frame := Some [0, 0, 0]\<rparr>)) [255, 255, 255] = Inl RuntimeError
   \<and> fst (monitoring_loop column_cv
            [tick 1709967901 [255, 255, 255] (Inl RuntimeError) (at_second 1 5),
             tick 1709967902 [255, 255, 255] (Inr []) (at_second 2 5)]
            (start\<lparr>background_frame := Some [0, 0, 0]\<rparr>))
     = [Failed RuntimeError, Saved ''/home/pi/pet-door-data/unknown/20240309_070502.jpg'']
   \<and> map fpath (disk (snd (monitoring_loop column_cv
            [tick 1709967901 [255, 255, 255] (Inl RuntimeError) (at_second 1 5),
             tick 1709967902 [255, 255, 255] (Inr []) (at_second 2 5)]
            (start\<lparr>background_frame := Some [0, 0, 0]\<rparr>))))
     = [''/home/pi/pet-door-data/unknown/20240309_070502.jpg'',
        ''/home/pi/pet-door-data/unknown/20240309_070502.json'']
   \<and> try_body column_cv
        ((tick 1709967901 [255, 255, 255] (Inr []) (at_second 1 5))\<lparr>t_capture := Inl RuntimeError\<rparr>)
        (start\<lparr>background_frame := Some [26, 26, 26]\<rparr>)
     = (Inl RuntimeError, start\<lparr>background_frame := Some [26, 26, 26]\<rparr>)
   \<and> fst (monitoring_loop column_cv
            [(tick 1709967901 [255, 255, 255] (Inr []) (at_second 1 5))\<lparr>t_capture := Inl RuntimeError\<rparr>,
             tick 1709967902 [255, 255, 255] (Inr []) (at_second 2 5)]
            (start\<lparr>background_frame := Some [26, 26, 26]\<rparr>))
     = [Failed RuntimeError, Saved ''/home/pi/pet-door-data/unknown/20240309_070502.jpg'']"
proof -
  let ?io = "tick 1709967901 [255, 255, 255] (Inl RuntimeError) (at_second 1 5)"
  let ?s = "start\<lparr>background_frame := Some [0, 0, 0]\<rparr>"
  let ?cam = "(tick 1709967901 [255, 255, 255] (Inr []) (at_second 1 5))\<lparr>t_capture := Inl RuntimeError\<rparr>"
  let ?sb = "start\<lparr>background_frame := Some [26, 26, 26]\<rparr>"
  have ab: "detection_active ?sb" by (simp add: start_def)
  have tb: "try_body column_cv ?cam ?sb = (Inl RuntimeError, ?sb)"
    by (simp add: try_body_def tick_def)
  have a: "detection_active ?s" by (simp add: start_def)
  have c: "t_capture ?io = Inr [255, 255, 255]" by (simp add: tick_def)
  have b: "cvtColor_RGB2BGR column_cv [255, 255, 255] = Inr [255, 255, 255]"
    by (simp add: column_cv_def)
  have m: "detect_motion column_cv (st_config ?s) [255, 255, 255] (background_frame ?s)
           = (Inr True, Some [26, 26, 26])"
    by (simp add: detect_motion_def column_cv_def start_def CONFIG_def)
  have t: "\<not> t_time ?io - last_detection_time ?s < of_int (cooldown_seconds (st_config ?s))"
    by (simp add: tick_def start_def CONFIG_def)
  have p: "detect_pets (t_model ?io) (st_config ?s) [255, 255, 255] = Inl RuntimeError"
    by (simp add: detect_pets_def tick_def)
  have bg: "?s\<lparr>background_frame := Some [26, 26, 26]\<rparr> = start\<lparr>background_frame := Some [26, 26, 26]\<rparr>"
    by simp
  note run = classifier_failure_keeps_loop_running [OF a c b m t p,
      where ios = "[tick 1709967902 [255, 255, 255] (Inr []) (at_second 2 5)]"
        and st = ?sb and tk = ?cam and err = RuntimeError and st' = ?sb
        and rest = "[tick 1709967902 [255, 255, 255] (Inr []) (at_second 2 5)]"]
  from run ab tb have
    "monitoring_loop column_cv [?io, tick 1709967902 [255, 255, 255] (Inr []) (at_second 2 5)] ?s =
           (Failed RuntimeError
              # fst (monitoring_loop column_cv [tick 1709967902 [255, 255, 255] (Inr []) (at_second 2 5)]
                       (?s\<lparr>background_frame := Some [26, 26, 26]\<rparr>)),
            snd (monitoring_loop column_cv [tick 1709967902 [255, 255, 255] (Inr []) (at_second 2 5)]
                   (?s\<lparr>background_frame := Some [26, 26, 26]\<rparr>)))"
    and "monitoring_loop column_cv [?cam, tick 1709967902 [255, 255, 255] (Inr []) (at_second 2 5)] ?sb =
           (Failed RuntimeError
              # fst (monitoring_loop column_cv [tick 1709967902 [255, 255, 255] (Inr []) (at_second 2 5)] ?sb),
            snd (monitoring_loop column_cv [tick 1709967902 [255, 255, 255] (Inr []) (at_second 2 5)] ?sb))"
    by blast+
  with m p tb show ?thesis
    by (simp add: bg good_tick_at_second_2 fpath_def os_path_join_def)
qed

text \<open>
  C7 (as amended). On an iteration with a frame and motion, the cooldown test passes
  exactly when \<open>now - last_detection_time \<ge> cooldown_seconds\<close>. When it does not
  pass, nothing is written and the stored time is unchanged (only the motion gate's
  background moves on). When it passes, the stored time is set to \<open>now\<close> once the
  classifier and \<open>save_detection\<close> have returned; after that, every iteration whose
  clock reading is less than \<open>cooldown_seconds\<close> after \<open>now\<close> is rejected: it writes
  nothing and leaves the stored time alone.
\<close>

theorem cooldown_one_write_per_window:
  assumes "detection_active s" and "t_capture io = Inr frame"
    and "cvtColor_RGB2BGR cv frame = Inr frame_bgr"
    and "detect_motion cv (st_config s) frame_bgr (background_frame s) = (Inr True, bg)"
  shows "(t_time io - last_detection_time s < of_int (cooldown_seconds (st_config s)) \<longrightarrow>
            snd (loop_iteration cv io s) = s\<lparr>background_frame := bg\<rparr>
          \<and> (\<forall>p. fst (loop_iteration cv io s) \<noteq> Saved p))
       \<and> (of_int (cooldown_seconds (st_config s)) \<le> t_time io - last_detection_time s \<longrightarrow>
            detect_pets (t_model io) (st_config s) frame_bgr = Inr pets \<longrightarrow>
            save_detection (st_config s) (t_save io) (disk s) frame_bgr pets = (Inr p, d) \<longrightarrow>
              last_detection_time (snd (loop_iteration cv io s)) = t_time io
            \<and> disk (snd (loop_iteration cv io s)) = cleanup_old_files (st_config s) (t_refuses io) d
            \<and> ((\<forall>io' \<in> set ios. t_time io' - t_time io < of_int (cooldown_seconds (st_config s))) \<longrightarrow>
                  last_detection_time (snd (monitoring_loop cv ios (snd (loop_iteration cv io s))))
                    = t_time io
                \<and> disk (snd (monitoring_loop cv ios (snd (loop_iteration cv io s))))
                    = disk (snd (loop_iteration cv io s))
                \<and> (\<forall>oc \<in> set (fst (monitoring_loop cv ios (snd (loop_iteration cv io s)))).
                      \<forall>q. oc \<noteq> Saved q)))"
proof (intro conjI impI)
  assume lt: "t_time io - last_detection_time s < of_int (cooldown_seconds (st_config s))"
  from tick_cooldown [OF assms lt]
  show "snd (loop_iteration cv io s) = s\<lparr>background_frame := bg\<rparr>" by simp
  from rejected_tick(3) [OF lt] show "\<forall>p. fst (loop_iteration cv io s) \<noteq> Saved p" by blast
next
  assume ge: "of_int (cooldown_seconds (st_config s)) \<le> t_time io - last_detection_time s"
    and pets: "detect_pets (t_model io) (st_config s) frame_bgr = Inr pets"
    and sv: "save_detection (st_config s) (t_save io) (disk s) frame_bgr pets = (Inr p, d)"
  from ge have nlt: "\<not> t_time io - last_detection_time s < of_int (cooldown_seconds (st_config s))"
    by simp
  note one = tick_saved [OF assms nlt pets sv]
  let ?s' = "snd (loop_iteration cv io s)"
  from one show last: "last_detection_time ?s' = t_time io" by simp
  from one show "disk ?s' = cleanup_old_files (st_config s) (t_refuses io) d" by simp
  assume "\<forall>io' \<in> set ios. t_time io' - t_time io < of_int (cooldown_seconds (st_config s))"
  then have w: "\<forall>io' \<in> set ios. t_time io' - last_detection_time ?s'
                   < of_int (cooldown_seconds (st_config ?s'))"
    by (simp add: last loop_iteration_config)
  note r = window_rejects [OF w, of cv]
  from r show "last_detection_time (snd (monitoring_loop cv ios ?s')) = t_time io"
    by (simp add: last)
  from r show "disk (snd (monitoring_loop cv ios ?s')) = disk ?s'" by simp
  from r show "\<forall>oc \<in> set (fst (monitoring_loop cv ios ?s')). \<forall>q. oc \<noteq> Saved q" by simp
qed


theorem cooldown_one_write_per_window_witness:
  "detect_motion column_cv (st_config (start\<lparr>background_frame := Some [26, 26, 26]\<rparr>))
       [255, 255, 255] (background_frame (start\<lparr>background_frame := Some [26, 26, 26]\<rparr>))
     = (Inr True, Some [49, 49, 49])
   \<and> of_int (cooldown_seconds (st_config (start\<lparr>background_frame := Some [26, 26, 26]\<rparr>)))
       \<le> t_time (tick 1709967902 [255, 255, 255] (Inr []) (at_second 2 5))
           - last_detection_time (start\<lparr>background_frame := Some [26, 26, 26]\<rparr>)
   \<and> last_detection_time
        (snd (loop_iteration column_cv (tick 1709967902 [255, 255, 255] (Inr []) (at_second 2 5))
               (start\<lparr>background_frame := Some [26, 26, 26]\<rparr>)))
       = 1709967902
   \<and> last_detection_time
        (snd (monitoring_loop column_cv
               [tick 1709967903 [255, 255, 255] (Inr []) (at_second 3 5),
                tick 1709967906 [255, 255, 255] (Inr []) (at_second 6 5)]
               (snd (loop_iteration column_cv
                      (tick 1709967902 [255, 255, 255] (Inr []) (at_second 2 5))
                      (start\<lparr>background_frame := Some [26, 26, 26]\<rparr>)))))
       = 1709967902
   \<and> map fpath (disk
        (snd (monitoring_loop column_cv
               [tick 1709967903 [255, 255, 255] (Inr []) (at_second 3 5),
                tick 1709967906 [255, 255, 255] (Inr []) (at_second 6 5)]
               (snd (loop_iteration column_cv
                      (tick 1709967902 [255, 255, 255] (Inr []) (at_second 2 5))
                      (start\<lparr>background_frame := Some [26, 26, 26]\<rparr>))))))
       = [''/home/pi/pet-door-data/unknown/20240309_070502.jpg'',
          ''/home/pi/pet-door-data/unknown/20240309_070502.json'']"
proof -
  let ?io = "tick 1709967902 [255, 255, 255] (Inr []) (at_second 2 5)"
  let ?s = "start\<lparr>background_frame := Some [26, 26, 26]\<rparr>"
  let ?ios = "[tick 1709967903 [255, 255, 255] (Inr []) (at_second 3 5),
               tick 1709967906 [255, 255, 255] (Inr []) (at_second 6 5)]"
  have a: "detection_active ?s" by (simp add: start_def)
  have c: "t_capture ?io = Inr [255, 255, 255]" by (simp add: tick_def)
  have b: "cvtColor_RGB2BGR column_cv [255, 255, 255] = Inr [255, 255, 255]"
    by (simp add: column_cv_def)
  have m: "detect_motion column_cv (st_config ?s) [255, 255, 255] (background_frame ?s)
           = (Inr True, Some [49, 49, 49])"
  proof -
    have "\<lfloor>247 / 5 :: rat\<rfloor> = 49" by (rule floor_unique) simp_all
    then show ?thesis
      by (simp add: detect_motion_def column_cv_def start_def CONFIG_def)
  qed
  have t: "of_int (cooldown_seconds (st_config ?s)) \<le> t_time ?io - last_detection_time ?s"
    by (simp add: tick_def start_def CONFIG_def)
  have p: "detect_pets (t_model ?io) (st_config ?s) [255, 255, 255] = Inr []"
    by (simp add: detect_pets_def tick_def)
  have w: "save_detection (st_config ?s) (t_save ?io) (disk ?s) [255, 255, 255] []
   = (Inr ''/home/pi/pet-door-data/unknown/20240309_070502.jpg'',
      [\<lparr>froot = ''/home/pi/pet-door-data/unknown'', fname = ''20240309_070502.jpg'',
        fsize = 200000, fmtime = 1709967902, fdata = Image [255, 255, 255]\<rparr>,
       \<lparr>froot = ''/home/pi/pet-door-data/unknown'', fname = ''20240309_070502.json'',
        fsize = 300, fmtime = 1709967902,
        fdata = Metadata \<lparr>timestamp = ''2024-03-09T07:05:02.000005'', mcategory = ''unknown'',
                           detections = [], filename = ''20240309_070502.jpg''\<rparr>\<rparr>])"
    using save_detection_at_second_2 by (simp add: start_def)
  have win: "\<forall>io' \<in> set ?ios. t_time io' - t_time ?io < of_int (cooldown_seconds (st_config ?s))"
    by (simp add: tick_def start_def CONFIG_def)
  note inst = cooldown_one_write_per_window [OF a c b m, of "[]"
      "''/home/pi/pet-door-data/unknown/20240309_070502.jpg''" _ ?ios]
  from inst t p w win m
  have "last_detection_time (snd (loop_iteration column_cv ?io ?s)) = t_time ?io"
    and "last_detection_time (snd (monitoring_loop column_cv ?ios (snd (loop_iteration column_cv ?io ?s))))
           = t_time ?io"
    and "disk (snd (monitoring_loop column_cv ?ios (snd (loop_iteration column_cv ?io ?s))))
           = disk (snd (loop_iteration column_cv ?io ?s))"
    by blast+
  moreover have "map fpath (disk (snd (loop_iteration column_cv ?io ?s)))
       = [''/home/pi/pet-door-data/unknown/20240309_070502.jpg'',
          ''/home/pi/pet-door-data/unknown/20240309_070502.json'']"
    by (simp add: good_tick_at_second_2 fpath_def os_path_join_def)
  moreover have "t_time ?io = 1709967902" by (simp add: tick_def)
  ultimately show ?thesis using m t by simp
qed

text \<open>
  C7, the claim as stated, fails on an iteration whose classifier raises: the cooldown
  test passes (the stored time is 0), yet the stored time is not updated, and the
  iteration one second later passes the test again and writes.
\<close>

theorem cooldown_failed_tick_counterexample:
  "of_int (cooldown_seconds (st_config (start\<lparr>background_frame := Some [0, 0, 0]\<rparr>)))
       \<le> t_time (tick 1709967901 [255, 255, 255] (Inl RuntimeError) (at_second 1 5))
           - last_detection_time (start\<lparr>background_frame := Some [0, 0, 0]\<rparr>)
   \<and> loop_iteration column_cv (tick 1709967901 [255, 255, 255] (Inl RuntimeError) (at_second 1 5))
        (start\<lparr>background_frame := Some [0, 0, 0]\<rparr>)
       = (Failed RuntimeError, start\<lparr>background_frame := Some [26, 26, 26]\<rparr>)
   \<and> last_detection_time (start\<lparr>background_frame := Some [26, 26, 26]\<rparr>) = 0
   \<and> t_time (tick 1709967902 [255, 255, 255] (Inr []) (at_second 2 5))
         - t_time (tick 1709967901 [255, 255, 255] (Inl RuntimeError) (at_second 1 5))
       < of_int (cooldown_seconds (st_config (start\<lparr>background_frame := Some [0, 0, 0]\<rparr>)))
   \<and> fst (loop_iteration column_cv (tick 1709967902 [255, 255, 255] (Inr []) (at_second 2 5))
            (start\<lparr>background_frame := Some [26, 26, 26]\<rparr>))
       = Saved ''/home/pi/pet-door-data/unknown/20240309_070502.jpg''"
proof -
  let ?io = "tick 1709967901 [255, 255, 255] (Inl RuntimeError) (at_second 1 5)"
  let ?s = "start\<lparr>background_frame := Some [0, 0, 0]\<rparr>"
  have a: "detection_active ?s" by (simp add: start_def)
  have c: "t_capture ?io = Inr [255, 255, 255]" by (simp add: tick_def)
  have b: "cvtColor_RGB2BGR column_cv [255, 255, 255] = Inr [255, 255, 255]"
    by (simp add: column_cv_def)
  have m: "detect_motion column_cv (st_config ?s) [255, 255, 255] (background_frame ?s)
           = (Inr True, Some [26, 26, 26])"
    by (simp add: detect_motion_def column_cv_def start_def CONFIG_def)
  have t: "\<not> t_time ?io - last_detection_time ?s < of_int (cooldown_seconds (st_config ?s))"
    by (simp add: tick_def start_def CONFIG_def)
  have p: "detect_pets (t_model ?io) (st_config ?s) [255, 255, 255] = Inl RuntimeError"
    by (simp add: detect_pets_def tick_def)
  have one: "loop_iteration column_cv ?io ?s
       = (Failed RuntimeError, start\<lparr>background_frame := Some [26, 26, 26]\<rparr>)"
    using tick_classifier_raises [OF a c b m t p] by simp
  show ?thesis
    unfolding one good_tick_at_second_2
    by (simp add: tick_def start_def CONFIG_def)
qed

text \<open>
  C2 (as amended). The evidence writer's identifier is the capture time printed to the
  second, with no suffix. Two writes whose capture times agree to the second and whose
  detections fall in the same category get the same image path and the same sidecar
  path, and the second replaces both files of the first: the storage tree after the two
  writes is the one the second write alone would have produced.
\<close>

theorem same_second_write_replaces:
  assumes "year (sv_now io2) = year (sv_now io1)" and "month (sv_now io2) = month (sv_now io1)"
    and "day (sv_now io2) = day (sv_now io1)" and "hour (sv_now io2) = hour (sv_now io1)"
    and "minute (sv_now io2) = minute (sv_now io1)" and "second (sv_now io2) = second (sv_now io1)"
    and "category pets2 = category pets1"
    and "sv_imwrite io1 = Inr True" and "sv_open io1 = None"
    and "sv_imwrite io2 = Inr True" and "sv_open io2 = None"
  shows "fst (save_detection cfg io2 (snd (save_detection cfg io1 fs frame1 pets1)) frame2 pets2)
           = fst (save_detection cfg io1 fs frame1 pets1)
       \<and> snd (save_detection cfg io2 (snd (save_detection cfg io1 fs frame1 pets1)) frame2 pets2)
           = snd (save_detection cfg io2 fs frame2 pets2)"
proof -
  define dir where "dir = os_path_join (storage_path cfg) (category pets1)"
  define name where "name = strftime_jpg (sv_now io1)"
  define meta_name where "meta_name = with_suffix name ''.json''"
  have n2: "strftime_jpg (sv_now io2) = name"
    unfolding name_def using assms(1-6) by (rule strftime_jpg_same_second)
  have ne: "meta_name \<noteq> name"
    unfolding meta_name_def name_def by (rule with_suffix_strftime_jpg)
  define j1 :: "'a diskfile" where
    "j1 = \<lparr>froot = dir, fname = name, fsize = sv_jpg_size io1, fmtime = sv_jpg_mtime io1,
           fdata = Image frame1\<rparr>"
  define j2 :: "'a diskfile" where
    "j2 = \<lparr>froot = dir, fname = name, fsize = sv_jpg_size io2, fmtime = sv_jpg_mtime io2,
           fdata = Image frame2\<rparr>"
  define m1 :: "'a diskfile" where
    "m1 = \<lparr>froot = dir, fname = meta_name, fsize = sv_json_size io1, fmtime = sv_json_mtime io1,
           fdata = Metadata \<lparr>timestamp = isoformat (sv_now io1), mcategory = category pets1,
                             detections = pets1, filename = name\<rparr>\<rparr>"
  define m2 :: "'a diskfile" where
    "m2 = \<lparr>froot = dir, fname = meta_name, fsize = sv_json_size io2, fmtime = sv_json_mtime io2,
           fdata = Metadata \<lparr>timestamp = isoformat (sv_now io2), mcategory = category pets1,
                             detections = pets2, filename = name\<rparr>\<rparr>"
  have s1: "save_detection cfg io1 fs frame1 pets1 =
              (Inr (os_path_join dir name), write_file m1 (write_file j1 fs))" for fs
    using assms(8,9)
    by (simp add: save_detection_def Let_def dir_def name_def meta_name_def j1_def m1_def)
  have s2: "save_detection cfg io2 fs frame2 pets2 =
              (Inr (os_path_join dir name), write_file m2 (write_file j2 fs))" for fs
    using assms(7,10,11) n2
    by (simp add: save_detection_def Let_def dir_def meta_name_def j2_def m2_def)
  have "write_file j2 (write_file m1 (write_file j1 fs))
          = write_file m1 (write_file j2 (write_file j1 fs))"
  proof (rule write_file_swap)
    show "froot j2 \<noteq> froot m1 \<or> fname j2 \<noteq> fname m1"
      using ne by (simp add: j2_def m1_def)
    have "list_ex (\<lambda>f. froot f = froot j1 \<and> fname f = fname j1) (write_file j1 fs)"
      by (rule write_file_present)
    then show "list_ex (\<lambda>f. froot f = froot j2 \<and> fname f = fname j2) (write_file j1 fs)"
      by (simp add: j1_def j2_def)
  qed
  also have "write_file j2 (write_file j1 fs) = write_file j2 fs"
    by (rule write_file_twice) (simp_all add: j1_def j2_def)
  finally have "write_file m2 (write_file j2 (write_file m1 (write_file j1 fs)))
                  = write_file m2 (write_file m1 (write_file j2 fs))"
    by simp
  also have "\<dots> = write_file m2 (write_file j2 fs)"
    by (rule write_file_twice) (simp_all add: m1_def m2_def)
  finally show ?thesis
    by (simp add: s1 s2)
qed


theorem same_second_write_replaces_witness:
  "second (sv_now (t_save (tick (17099679029 / 10) [2, 2, 2] (Inr []) (at_second 2 900))))
     = second (sv_now (t_save (tick 1709967902 [1, 1, 1] (Inr []) (at_second 2 5))))
   \<and> microsecond (sv_now (t_save (tick (17099679029 / 10) [2, 2, 2] (Inr []) (at_second 2 900))))
     \<noteq> microsecond (sv_now (t_save (tick 1709967902 [1, 1, 1] (Inr []) (at_second 2 5))))
   \<and> fst (save_detection (CONFIG ''/home/pi'')
            (t_save (tick (17099679029 / 10) [2, 2, 2] (Inr []) (at_second 2 900)))
            (snd (save_detection (CONFIG ''/home/pi'')
                   (t_save (tick 1709967902 [1, 1, 1] (Inr []) (at_second 2 5)))
                   [] [1, 1, 1::nat] []))
            [2, 2, 2] [])
     = fst (save_detection (CONFIG ''/home/pi'')
              (t_save (tick 1709967902 [1, 1, 1] (Inr []) (at_second 2 5))) [] [1, 1, 1::nat] [])
   \<and> snd (save_detection (CONFIG ''/home/pi'')
            (t_save (tick (17099679029 / 10) [2, 2, 2] (Inr []) (at_second 2 900)))
            (snd (save_detection (CONFIG ''/home/pi'')
                   (t_save (tick 1709967902 [1, 1, 1] (Inr []) (at_second 2 5)))
                   [] [1, 1, 1::nat] []))
            [2, 2, 2] [])
     = snd (save_detection (CONFIG ''/home/pi'')
              (t_save (tick (17099679029 / 10) [2, 2, 2] (Inr []) (at_second 2 900)))
              [] [2, 2, 2::nat] [])"
proof -
  let ?io1 = "t_save (tick 1709967902 [1, 1, 1] (Inr []) (at_second 2 5))"
  let ?io2 = "t_save (tick (17099679029 / 10) [2, 2, 2] (Inr []) (at_second 2 900))"
  have h: "year (sv_now ?io2) = year (sv_now ?io1)" "month (sv_now ?io2) = month (sv_now ?io1)"
    "day (sv_now ?io2) = day (sv_now ?io1)" "hour (sv_now ?io2) = hour (sv_now ?io1)"
    "minute (sv_now ?io2) = minute (sv_now ?io1)" "second (sv_now ?io2) = second (sv_now ?io1)"
    "category [] = category []"
    "sv_imwrite ?io1 = Inr True" "sv_open ?io1 = None"
    "sv_imwrite ?io2 = Inr True" "sv_open ?io2 = None"
    by (simp_all add: tick_def at_second_def)
  have u: "microsecond (sv_now ?io2) \<noteq> microsecond (sv_now ?io1)"
    by (simp add: tick_def at_second_def)
  note r = same_second_write_replaces [OF h, of "CONFIG ''/home/pi''" "[]" "[1, 1, 1]" "[2, 2, 2]"]
  show ?thesis by (rule conjI [OF h(6) conjI [OF u r]])
qed

text \<open>
  C2, the claim as stated, fails: two writes in the same second (at 5 and at 900
  microseconds) of different frames return the same path, and afterwards the storage
  tree holds one image and one sidecar, both of the second write; the first frame is
  gone.
\<close>

lemma strftime_jpg_at_second_2_late:
  "strftime_jpg (at_second 2 900) = ''20240309_070502.jpg''"
  by code_simp

lemma isoformat_at_second_2_late:
  "isoformat (at_second 2 900) = ''2024-03-09T07:05:02.000900''"
  by code_simp


theorem same_second_collision_counterexample:
  "fst (save_detection (CONFIG ''/home/pi'')
         (t_save (tick 1709967902 [1, 1, 1] (Inr []) (at_second 2 5))) [] [1, 1, 1::nat] [])
     = Inr ''/home/pi/pet-door-data/unknown/20240309_070502.jpg''
   \<and> fst (save_detection (CONFIG ''/home/pi'')
            (t_save (tick (17099679029 / 10) [2, 2, 2] (Inr []) (at_second 2 900)))
            (snd (save_detection (CONFIG ''/home/pi'')
                   (t_save (tick 1709967902 [1, 1, 1] (Inr []) (at_second 2 5)))
                   [] [1, 1, 1::nat] []))
            [2, 2, 2] [])
     = Inr ''/home/pi/pet-door-data/unknown/20240309_070502.jpg''
   \<and> map fdata
        (snd (save_detection (CONFIG ''/home/pi'')
            (t_save (tick (17099679029 / 10) [2, 2, 2] (Inr []) (at_second 2 900)))
            (snd (save_detection (CONFIG ''/home/pi'')
                   (t_save (tick 1709967902 [1, 1, 1] (Inr []) (at_second 2 5)))
                   [] [1, 1, 1::nat] []))
            [2, 2, 2] []))
     = [Image [2, 2, 2],
        Metadata \<lparr>timestamp = ''2024-03-09T07:05:02.000900'', mcategory = ''unknown'',
                  detections = [], filename = ''20240309_070502.jpg''\<rparr>]"
  by (simp add: save_detection_def tick_def strftime_jpg_at_second_2 isoformat_at_second_2
      strftime_jpg_at_second_2_late isoformat_at_second_2_late
      category_def CONFIG_def os_path_join_def write_file_def with_suffix_def Let_def)

text \<open>
  With one file per path, the selected paths are those of the oldest images: an image
  whose path is selected is at most as new as an image whose path is not.
\<close>

lemma sorted_files_distinct:
  assumes "distinct (map fpath fs)"
  shows "distinct (map fst (sort_key snd (all_files cfg fs)))"
proof -
  have "distinct (map fpath (images cfg fs))"
    unfolding images_def os_walk_def using assms by (simp add: distinct_map_filter)
  then have "distinct (map fst (all_files cfg fs))"
    by (simp add: all_files_images comp_def)
  then have "card (set (map fst (all_files cfg fs))) = length (map fst (all_files cfg fs))"
    by (rule distinct_card)
  then have "card (set (map fst (sort_key snd (all_files cfg fs))))
               = length (map fst (sort_key snd (all_files cfg fs)))"
    by simp
  then show ?thesis by (rule card_distinct)
qed

lemma to_delete_oldest_paths:
  assumes d: "distinct (map fpath fs)"
    and x: "x \<in> set (all_files cfg fs)" and y: "y \<in> set (all_files cfg fs)"
    and sel: "fst x \<in> set (to_delete cfg fs)" and unsel: "fst y \<notin> set (to_delete cfg fs)"
  shows "snd x \<le> snd y"
proof -
  let ?S = "sort_key snd (all_files cfg fs)"
  let ?k = "files_to_delete (length (all_files cfg fs))"
  have inj: "inj_on fst (set ?S)"
    using sorted_files_distinct [OF d, of cfg] by (simp add: distinct_map)
  from sel obtain x' where x': "x' \<in> set (take ?k ?S)" and eq: "fst x' = fst x"
    by (auto simp: to_delete_def)
  from x' have "x' \<in> set ?S" by (rule in_set_takeD)
  moreover from x have "x \<in> set ?S" by simp
  ultimately have "x' = x" using inj eq by (auto dest: inj_onD)
  with x' have xt: "x \<in> set (take ?k ?S)" by simp
  from y have "y \<in> set ?S" by simp
  then have "y \<in> set (take ?k ?S) \<union> set (drop ?k ?S)"
    by (simp only: set_append [symmetric] append_take_drop_id)
  moreover from unsel have "y \<notin> set (take ?k ?S)"
    by (auto simp: to_delete_def)
  ultimately have yd: "y \<in> set (drop ?k ?S)" by blast
  from xt yd show ?thesis by (rule to_delete_oldest)
qed

text \<open>The images left by a cleanup pass above the mark.\<close>

lemma all_files_cleanup:
  assumes "\<not> get_storage_usage_gb cfg fs \<le> of_int (high_water_mark_gb cfg)"
  shows "all_files cfg (cleanup_old_files cfg refuses fs)
           = filter (\<lambda>x. fst x \<in> set (to_delete cfg fs) \<longrightarrow> refuses (fst x)) (all_files cfg fs)"
  using assms
  by (simp add: cleanup_old_files_filter all_files_images images_filter filter_map comp_def)

text \<open>
  C4 (as amended). A cleanup pass changes nothing when the usage is at or below
  \<open>high_water_mark_gb\<close>. Otherwise it enumerates the image files (\<open>*.jpg\<close>) below the
  storage path, sorts them by modification time, oldest first, and selects the first
  \<open>int(n * 0.2)\<close> of the \<open>n\<close> images, which is \<open>n div 5\<close>: with one file per path,
  every image whose path is selected is at most as new as every image whose path is not.
  It attempts to remove each selected image: one whose removal is not refused is gone
  afterwards, a refused one is skipped and stays. Nothing is added, and every file that
  is neither a selected image nor the sidecar of one stays as it is. When no removal is
  refused and no two files share a path, the number of images drops by exactly
  \<open>n div 5\<close>.
\<close>

theorem cleanup_selects_oldest_fifth:
  "(get_storage_usage_gb cfg fs \<le> of_int (high_water_mark_gb cfg) \<longrightarrow>
      cleanup_old_files cfg refuses fs = fs)
   \<and> (\<not> get_storage_usage_gb cfg fs \<le> of_int (high_water_mark_gb cfg) \<longrightarrow>
        (length (all_files cfg fs) < 2 ^ 54 \<longrightarrow>
           length (to_delete cfg fs) = length (all_files cfg fs) div 5)
      \<and> set (to_delete cfg fs) \<subseteq> fst ` set (all_files cfg fs)
      \<and> (\<forall>p \<in> set (take (files_to_delete (length (all_files cfg fs)))
                        (sort_key snd (all_files cfg fs))).
          \<forall>q \<in> set (drop (files_to_delete (length (all_files cfg fs)))
                        (sort_key snd (all_files cfg fs))). snd p \<le> snd q)
      \<and> (\<forall>p \<in> set (to_delete cfg fs). \<not> refuses p \<longrightarrow>
            \<not> list_ex (\<lambda>f. fpath f = p) (cleanup_old_files cfg refuses fs))
      \<and> (\<forall>f \<in> set fs. fpath f \<notin> set (to_delete cfg fs) \<longrightarrow>
            \<not> (\<exists>g \<in> set fs. fpath g \<in> set (to_delete cfg fs) \<and> froot f = froot g
                    \<and> fname f = with_suffix (fname g) ''.json'') \<longrightarrow>
            f \<in> set (cleanup_old_files cfg refuses fs))
      \<and> set (cleanup_old_files cfg refuses fs) \<subseteq> set fs
      \<and> (distinct (map fpath fs) \<longrightarrow> (\<forall>p. \<not> refuses p) \<longrightarrow> length (all_files cfg fs) < 2 ^ 54 \<longrightarrow>
            length (all_files cfg (cleanup_old_files cfg refuses fs))
              = length (all_files cfg fs) - length (all_files cfg fs) div 5)
      \<and> (distinct (map fpath fs) \<longrightarrow>
            (\<forall>x \<in> set (all_files cfg fs). \<forall>y \<in> set (all_files cfg fs).
               fst x \<in> set (to_delete cfg fs) \<longrightarrow> fst y \<notin> set (to_delete cfg fs) \<longrightarrow>
               snd x \<le> snd y))
      \<and> (\<forall>f \<in> set fs. refuses (fpath f) \<longrightarrow> f \<in> set (cleanup_old_files cfg refuses fs)))"
proof (intro conjI impI)
  assume "get_storage_usage_gb cfg fs \<le> of_int (high_water_mark_gb cfg)"
  then show "cleanup_old_files cfg refuses fs = fs"
    by (simp add: cleanup_old_files_def)
next
  assume "length (all_files cfg fs) < 2 ^ 54"
  then show "length (to_delete cfg fs) = length (all_files cfg fs) div 5"
    by (rule to_delete_length)
next
  show "set (to_delete cfg fs) \<subseteq> fst ` set (all_files cfg fs)"
    using to_delete_subset [of cfg fs] by (force simp: all_files_images)
next
  show "\<forall>p \<in> set (take (files_to_delete (length (all_files cfg fs)))
                        (sort_key snd (all_files cfg fs))).
          \<forall>q \<in> set (drop (files_to_delete (length (all_files cfg fs)))
                        (sort_key snd (all_files cfg fs))). snd p \<le> snd q"
    using to_delete_oldest by blast
next
  assume over: "\<not> get_storage_usage_gb cfg fs \<le> of_int (high_water_mark_gb cfg)"
  then have c: "cleanup_old_files cfg refuses fs
                  = filter (\<lambda>f. fpath f \<in> set (to_delete cfg fs) \<longrightarrow> refuses (fpath f)) fs"
    by (simp add: cleanup_old_files_filter)
  show "\<forall>p \<in> set (to_delete cfg fs). \<not> refuses p \<longrightarrow>
            \<not> list_ex (\<lambda>f. fpath f = p) (cleanup_old_files cfg refuses fs)"
    unfolding c by (auto simp: list_ex_iff)
  show "\<forall>f \<in> set fs. fpath f \<notin> set (to_delete cfg fs) \<longrightarrow>
            \<not> (\<exists>g \<in> set fs. fpath g \<in> set (to_delete cfg fs) \<and> froot f = froot g
                    \<and> fname f = with_suffix (fname g) ''.json'') \<longrightarrow>
            f \<in> set (cleanup_old_files cfg refuses fs)"
    unfolding c by simp
  show "set (cleanup_old_files cfg refuses fs) \<subseteq> set fs"
    unfolding c by auto
  assume d: "distinct (map fpath fs)" and nr: "\<forall>p. \<not> refuses p"
    and n: "length (all_files cfg fs) < 2 ^ 54"
  from nr have c': "cleanup_old_files cfg refuses fs
                  = filter (\<lambda>f. fpath f \<notin> set (to_delete cfg fs)) fs"
    unfolding c by simp
  have "length (all_files cfg (cleanup_old_files cfg refuses fs))
          = length (filter (\<lambda>f. fpath f \<notin> set (to_delete cfg fs)) (images cfg fs))"
    by (simp add: c' all_files_images images_filter)
  also have "\<dots> = length (images cfg fs)
                  - length (filter (\<lambda>f. fpath f \<in> set (to_delete cfg fs)) (images cfg fs))"
    using sum_length_filter_compl [of "\<lambda>f. fpath f \<in> set (to_delete cfg fs)" "images cfg fs"]
    by simp
  also have "\<dots> = length (all_files cfg fs) - length (all_files cfg fs) div 5"
    by (simp add: removed_count [OF d] to_delete_length [OF n] all_files_images)
  finally show "length (all_files cfg (cleanup_old_files cfg refuses fs))
              = length (all_files cfg fs) - length (all_files cfg fs) div 5" .
next
  assume d: "distinct (map fpath fs)"
  show "\<forall>x \<in> set (all_files cfg fs). \<forall>y \<in> set (all_files cfg fs).
               fst x \<in> set (to_delete cfg fs) \<longrightarrow> fst y \<notin> set (to_delete cfg fs) \<longrightarrow>
               snd x \<le> snd y"
    using to_delete_oldest_paths [OF d] by blast
next
  assume "\<not> get_storage_usage_gb cfg fs \<le> of_int (high_water_mark_gb cfg)"
  then show "\<forall>f \<in> set fs. refuses (fpath f) \<longrightarrow> f \<in> set (cleanup_old_files cfg refuses fs)"
    by (simp add: cleanup_old_files_filter)
qed


theorem cleanup_selects_oldest_fifth_witness:
  "\<not> get_storage_usage_gb (CONFIG ''/home/pi'') ten_entries
       \<le> of_int (high_water_mark_gb (CONFIG ''/home/pi''))
   \<and> distinct (map fpath ten_entries)
   \<and> length (all_files (CONFIG ''/home/pi'') ten_entries) = 10
   \<and> map snd (all_files (CONFIG ''/home/pi'') ten_entries) =
       [1709967900, 1709967915, 1709967930, 1709967955, 1709967910,
        1709967925, 1709967950, 1709967905, 1709967920, 1709967940]
   \<and> to_delete (CONFIG ''/home/pi'') ten_entries =
       [''/home/pi/pet-door-data/cats/20240309_070500.jpg'',
        ''/home/pi/pet-door-data/unknown/20240309_070505.jpg'']
   \<and> length (all_files (CONFIG ''/home/pi'')
               (cleanup_old_files (CONFIG ''/home/pi'') (\<lambda>p. False) ten_entries)) = 8"
proof -
  have n: "length (all_files (CONFIG ''/home/pi'') ten_entries) = 10"
    by (simp add: ten_entries_all_files)
  have ts: "map snd (all_files (CONFIG ''/home/pi'') ten_entries) =
       [1709967900, 1709967915, 1709967930, 1709967955, 1709967910,
        1709967925, 1709967950, 1709967905, 1709967920, 1709967940]"
    by (simp add: ten_entries_all_files)
  have small: "length (all_files (CONFIG ''/home/pi'') ten_entries) < 2 ^ 54"
    by (simp add: n)
  have nr: "\<forall>p. \<not> (\<lambda>p::string. False) p" by simp
  from cleanup_selects_oldest_fifth [of "CONFIG ''/home/pi''" ten_entries "\<lambda>p. False"]
    ten_entries_usage ten_entries_distinct nr small
  have "length (all_files (CONFIG ''/home/pi'')
               (cleanup_old_files (CONFIG ''/home/pi'') (\<lambda>p. False) ten_entries))
          = length (all_files (CONFIG ''/home/pi'') ten_entries)
            - length (all_files (CONFIG ''/home/pi'') ten_entries) div 5"
    by blast
  then have "length (all_files (CONFIG ''/home/pi'')
               (cleanup_old_files (CONFIG ''/home/pi'') (\<lambda>p. False) ten_entries)) = 8"
    by (simp add: n)
  with ten_entries_usage ten_entries_distinct n ts ten_entries_to_delete show ?thesis
    by (simp only: simp_thms)
qed

text \<open>
  C4, the claim as stated, fails when the operating system refuses a removal: on the
  ten entries, over the mark, \<open>int(10 * 0.2) = 2\<close> images are selected, but with the
  removal of the oldest one refused the exception is caught and nine images remain, the
  oldest among them.
\<close>

theorem cleanup_refused_removal_counterexample:
  "\<not> get_storage_usage_gb (CONFIG ''/home/pi'') ten_entries
       \<le> of_int (high_water_mark_gb (CONFIG ''/home/pi''))
   \<and> length (all_files (CONFIG ''/home/pi'') ten_entries) = 10
   \<and> files_to_delete 10 = 2
   \<and> length (all_files (CONFIG ''/home/pi'')
               (cleanup_old_files (CONFIG ''/home/pi'')
                  (\<lambda>p. p = ''/home/pi/pet-door-data/cats/20240309_070500.jpg'') ten_entries)) = 9
   \<and> hd (all_files (CONFIG ''/home/pi'')
               (cleanup_old_files (CONFIG ''/home/pi'')
                  (\<lambda>p. p = ''/home/pi/pet-door-data/cats/20240309_070500.jpg'') ten_entries))
       = (''/home/pi/pet-door-data/cats/20240309_070500.jpg'', 1709967900)"
proof -
  have "all_files (CONFIG ''/home/pi'')
          (cleanup_old_files (CONFIG ''/home/pi'')
             (\<lambda>p. p = ''/home/pi/pet-door-data/cats/20240309_070500.jpg'') ten_entries)
        = [(''/home/pi/pet-door-data/cats/20240309_070500.jpg'', 1709967900),
           (''/home/pi/pet-door-data/cats/20240309_070515.jpg'', 1709967915),
           (''/home/pi/pet-door-data/cats/20240309_070530.jpg'', 1709967930),
           (''/home/pi/pet-door-data/cats/20240309_070555.jpg'', 1709967955),
           (''/home/pi/pet-door-data/dogs/20240309_070510.jpg'', 1709967910),
           (''/home/pi/pet-door-data/dogs/20240309_070525.jpg'', 1709967925),
           (''/home/pi/pet-door-data/dogs/20240309_070550.jpg'', 1709967950),
           (''/home/pi/pet-door-data/unknown/20240309_070520.jpg'', 1709967920),
           (''/home/pi/pet-door-data/unknown/20240309_070540.jpg'', 1709967940)]"
    by (simp add: all_files_cleanup [OF ten_entries_usage] ten_entries_to_delete
        ten_entries_all_files)
  then show ?thesis
    using ten_entries_usage by (simp add: ten_entries_all_files files_to_delete_def)
qed

text \<open>
  C1. The claim fails on the code: a cleanup pass removes only the image of a selected
  entry. On the ten entries (13 GB against the mark of 10 GB, no removal refused) the
  two oldest images are gone after the pass, and their sidecars are still there.
\<close>

theorem cleanup_leaves_sidecars_of_removed_images:
  "list_ex (\<lambda>f. fpath f = ''/home/pi/pet-door-data/cats/20240309_070500.jpg'') ten_entries
   \<and> list_ex (\<lambda>f. fpath f = ''/home/pi/pet-door-data/cats/20240309_070500.json'') ten_entries
   \<and> \<not> list_ex (\<lambda>f. fpath f = ''/home/pi/pet-door-data/cats/20240309_070500.jpg'')
          (cleanup_old_files (CONFIG ''/home/pi'') (\<lambda>p. False) ten_entries)
   \<and> list_ex (\<lambda>f. fpath f = ''/home/pi/pet-door-data/cats/20240309_070500.json'')
          (cleanup_old_files (CONFIG ''/home/pi'') (\<lambda>p. False) ten_entries)
   \<and> \<not> list_ex (\<lambda>f. fpath f = ''/home/pi/pet-door-data/unknown/20240309_070505.jpg'')
          (cleanup_old_files (CONFIG ''/home/pi'') (\<lambda>p. False) ten_entries)
   \<and> list_ex (\<lambda>f. fpath f = ''/home/pi/pet-door-data/unknown/20240309_070505.json'')
          (cleanup_old_files (CONFIG ''/home/pi'') (\<lambda>p. False) ten_entries)
   \<and> length (cleanup_old_files (CONFIG ''/home/pi'') (\<lambda>p. False) ten_entries) = 18"
proof -
  have c: "cleanup_old_files (CONFIG ''/home/pi'') (\<lambda>p. False) ten_entries
             = filter (\<lambda>f. fpath f \<notin> set [''/home/pi/pet-door-data/cats/20240309_070500.jpg'',
                                              ''/home/pi/pet-door-data/unknown/20240309_070505.jpg''])
                 ten_entries"
    using ten_entries_usage by (simp add: cleanup_old_files_filter ten_entries_to_delete)
  show ?thesis
    unfolding c by (simp add: ten_entries_listing fpath_def os_path_join_def)
qed

end
